theory Spec2Isabelle
  imports Complex_Main
begin

section \<open>Python values, exceptions and the numpy operations the calibrator uses\<close>

text \<open>
  The development embeds \<^verbatim>\<open>world_frame_calibration.py\<close> (class
  \<^verbatim>\<open>WorldFrameCalibrator\<close>) and \<^verbatim>\<open>xy_transform/coordinate_transform.py\<close>
  (class \<^verbatim>\<open>CoordinateTransformer\<close>). Python floats and numpy float64 values are
  modelled as real numbers, so rounding, infinities and NaN are outside the model; a
  numpy array is modelled by the nested list that its \<^verbatim>\<open>tolist()\<close> returns.
  A method that mutates \<^verbatim>\<open>self\<close> takes the calibrator and returns the new one;
  a raised exception is the left injection of a sum. Printing is not modelled.
\<close>

datatype error = ValueError | TypeError | AttributeError | IndexError

type_synonym vec = "real list"
type_synonym mat = "real list list"

text \<open>A Python sequence keeps whether it is a tuple or a list: JSON turns both into a list.\<close>

datatype 'a pyseq = PyTuple "'a list" | PyList "'a list"

fun items :: "'a pyseq \<Rightarrow> 'a list" where
  "items (PyTuple xs) = xs"
| "items (PyList xs) = xs"

definition np_radians :: "real \<Rightarrow> real" where
  "np_radians deg = deg * pi / 180"

definition np_mean :: "vec \<Rightarrow> real" where
  "np_mean xs = sum_list xs / real (length xs)"

definition np_std :: "vec \<Rightarrow> real" where
  \<comment> \<open>numpy's default (ddof = 0): the square root of the mean squared deviation\<close>
  "np_std xs = sqrt (np_mean (map (\<lambda>x. \<bar>x - np_mean xs\<bar>\<^sup>2) xs))"

definition np_max :: "vec \<Rightarrow> real" where
  \<comment> \<open>only called on a non-empty list (numpy raises on an empty one)\<close>
  "np_max xs = fold max (tl xs) (hd xs)"

definition np_min :: "vec \<Rightarrow> real" where
  "np_min xs = fold min (tl xs) (hd xs)"

definition np_linalg_norm :: "vec \<Rightarrow> real" where
  "np_linalg_norm xs = sqrt (sum_list (map (\<lambda>x. \<bar>x\<bar>\<^sup>2) xs))"

definition np_sub :: "vec \<Rightarrow> vec \<Rightarrow> error + vec" where
  \<comment> \<open>elementwise difference of two 1-D arrays, with numpy's broadcasting of length 1\<close>
  "np_sub xs ys =
     (if length xs = length ys then Inr (map2 (-) xs ys)
      else if length ys = 1 then Inr (map (\<lambda>x. x - hd ys) xs)
      else if length xs = 1 then Inr (map (\<lambda>y. hd xs - y) ys)
      else Inl ValueError)"

definition dot :: "vec \<Rightarrow> vec \<Rightarrow> real" where
  "dot xs ys = sum_list (map2 (*) xs ys)"

definition column :: "mat \<Rightarrow> nat \<Rightarrow> vec" where
  "column B j = map (\<lambda>row. row ! j) B"

definition matmul :: "mat \<Rightarrow> mat \<Rightarrow> mat" where
  \<comment> \<open>\<^verbatim>\<open>A @ B\<close> on 2-D arrays; the source applies it to 3x3 literals only, whose shapes agree\<close>
  "matmul A B = map (\<lambda>row. map (\<lambda>j. dot row (column B j)) [0..<length (hd B)]) A"

definition matvec :: "mat \<Rightarrow> vec \<Rightarrow> error + vec" where
  \<comment> \<open>\<^verbatim>\<open>A @ v\<close> for a 2-D array and a 1-D array: numpy raises ValueError on a shape mismatch\<close>
  "matvec A v =
     (if A \<noteq> [] \<and> list_all (\<lambda>row. length row = length v) A
      then Inr (map (\<lambda>row. dot row v) A) else Inl ValueError)"

definition np_eye :: "nat \<Rightarrow> mat" where
  "np_eye n = map (\<lambda>i. map (\<lambda>j. if i = j then 1 else 0) [0..<n]) [0..<n]"

definition assign_block3 :: "mat \<Rightarrow> mat \<Rightarrow> mat" where
  \<comment> \<open>\<^verbatim>\<open>T[:3, :3] = R\<close> for a 3x3 array R\<close>
  "assign_block3 T R =
     map (\<lambda>i. if i < 3 then take 3 (R ! i) @ drop 3 (T ! i) else T ! i) [0..<length T]"

definition assign_col3 :: "mat \<Rightarrow> vec \<Rightarrow> mat" where
  \<comment> \<open>\<^verbatim>\<open>T[:3, 3] = p\<close> for a 1-D array p of length 3\<close>
  "assign_col3 T p = map (\<lambda>i. if i < 3 then (T ! i)[3 := p ! i] else T ! i) [0..<length T]"

section \<open>The calibrator's state\<close>

text \<open>\<^verbatim>\<open>rs.intrinsics\<close> of pyrealsense2: the fields the repository reads.\<close>

record rs_intrinsics =
  width :: nat
  height :: nat
  fx :: real
  fy :: real
  ppx :: real
  ppy :: real

text \<open>The dictionary that \<^verbatim>\<open>add_calibration_point\<close> appends to the history.\<close>

record calibration_point =
  label :: string
  pixel_coords :: "int pyseq"
  depth_meters :: real
  world_coords_true :: "real pyseq"
  world_coords_predicted :: vec
  error_cm :: real

text \<open>
  The attributes of \<^verbatim>\<open>WorldFrameCalibrator\<close>; \<^verbatim>\<open>None\<close> is \<open>None\<close>. The
  output directory only names the file that is written and read and is left out.
\<close>

record calibrator =
  camera_intrinsics :: "rs_intrinsics option"
  depth_scale :: "real option"
  camera_height_cm :: "real option"
  camera_position_world :: "vec option"
  rotation_matrix :: "mat option"
  translation_vector :: "mat option"
  T_world_camera :: "mat option"
  calibration_error_cm :: "real option"
  calibration_points :: "calibration_point list"

definition WorldFrameCalibrator_init :: calibrator where
  "WorldFrameCalibrator_init =
     \<lparr>camera_intrinsics = None, depth_scale = None, camera_height_cm = None,
      camera_position_world = None, rotation_matrix = None, translation_vector = None,
      T_world_camera = None, calibration_error_cm = None, calibration_points = []\<rparr>"

definition setup_camera :: "rs_intrinsics \<Rightarrow> real \<Rightarrow> calibrator \<Rightarrow> calibrator" where
  \<comment> \<open>the intrinsics and the depth scale are what the active pipeline reports\<close>
  "setup_camera intr scale c = c\<lparr>depth_scale := Some scale, camera_intrinsics := Some intr\<rparr>"

section \<open>Validation statistics\<close>

record metrics =
  num_points :: nat
  mean_error_cm :: real
  std_error_cm :: real
  max_error_cm :: real
  min_error_cm :: real
  rmse_cm :: real

definition validate_calibration :: "calibrator \<Rightarrow> error + (metrics option \<times> calibrator)" where
  "validate_calibration c =
     (if length (calibration_points c) = 0 then Inr (None, c)
      else
        let errors = map error_cm (calibration_points c);
            m = \<lparr>num_points = length errors,
                 mean_error_cm = np_mean errors,
                 std_error_cm = np_std errors,
                 max_error_cm = np_max errors,
                 min_error_cm = np_min errors,
                 rmse_cm = sqrt (np_mean (map (\<lambda>e. e\<^sup>2) errors))\<rparr>
        in Inr (Some m, c\<lparr>calibration_error_cm := Some (mean_error_cm m)\<rparr>))"

section \<open>The rigid transform of an overhead pose\<close>

definition Rx :: "real \<Rightarrow> mat" where
  "Rx tilt = [[1, 0, 0], [0, cos tilt, - sin tilt], [0, sin tilt, cos tilt]]"

definition Ry :: "real \<Rightarrow> mat" where
  "Ry pan = [[cos pan, 0, sin pan], [0, 1, 0], [- sin pan, 0, cos pan]]"

definition Rz :: "real \<Rightarrow> mat" where
  "Rz roll = [[cos roll, - sin roll, 0], [sin roll, cos roll, 0], [0, 0, 1]]"

definition R_camera_to_world :: mat where
  "R_camera_to_world = [[1, 0, 0], [0, -1, 0], [0, 0, -1]]"

definition define_simple_overhead_calibration ::
  "calibrator \<Rightarrow> real \<Rightarrow> real \<Rightarrow> real \<Rightarrow> real \<Rightarrow> real \<Rightarrow> real \<Rightarrow> calibrator" where
  "define_simple_overhead_calibration c camera_height camera_x_world camera_y_world
       camera_tilt_deg camera_pan_deg camera_roll_deg =
     (let position = [camera_x_world / 100, camera_y_world / 100, camera_height / 100];
          tilt = np_radians camera_tilt_deg;
          pan = np_radians camera_pan_deg;
          roll = np_radians camera_roll_deg;
          rotation = matmul (matmul (Rz roll) (Ry pan)) (Rx tilt);
          rotation' = matmul rotation R_camera_to_world;
          T = assign_col3 (assign_block3 (np_eye 4) rotation') position
      in c\<lparr>camera_height_cm := Some camera_height,
           camera_position_world := Some position,
           rotation_matrix := Some rotation',
           translation_vector := Some (map (\<lambda>a. [a]) position),
           T_world_camera := Some T\<rparr>)"

text \<open>
  Modelled from the spec: \<^verbatim>\<open>rs.rs2_deproject_pixel_to_point\<close> belongs to the
  pyrealsense2 library, not to the repository; this is the inverse pinhole projection of
  section 4.1 of the specification (no lens distortion).
\<close>

definition rs2_deproject_pixel_to_point :: "rs_intrinsics \<Rightarrow> real \<Rightarrow> real \<Rightarrow> real \<Rightarrow> vec" where
  "rs2_deproject_pixel_to_point intr u v depth =
     [(u - ppx intr) / fx intr * depth, (v - ppy intr) / fy intr * depth, depth]"

definition pixel_to_camera_coordinates :: "calibrator \<Rightarrow> real \<Rightarrow> real \<Rightarrow> real \<Rightarrow> error + vec" where
  "pixel_to_camera_coordinates c u v depth =
     (case camera_intrinsics c of
        None \<Rightarrow> Inl ValueError
      | Some intr \<Rightarrow> Inr (rs2_deproject_pixel_to_point intr u v depth))"

definition camera_to_world_coordinates :: "calibrator \<Rightarrow> vec \<Rightarrow> bool \<Rightarrow> error + vec" where
  "camera_to_world_coordinates c point_camera return_cm =
     (case T_world_camera c of
        None \<Rightarrow> Inl ValueError
      | Some T \<Rightarrow>
          (case matvec T (point_camera @ [1]) of
             Inl e \<Rightarrow> Inl e
           | Inr point_world_h \<Rightarrow>
               let point_world = take 3 point_world_h
               in Inr (if return_cm then map (\<lambda>a. a * 100) point_world else point_world)))"

section \<open>Batch conversion of a depth image\<close>

text \<open>
  A depth image is a 2-D array of unsigned depth readings: its shape and the reading at
  row \<open>v\<close> and column \<open>u\<close>. The loops only read inside the shape.
\<close>

record depth_image =
  img_height :: nat
  img_width :: nat
  img_data :: "nat \<Rightarrow> nat \<Rightarrow> nat"

function py_range :: "nat \<Rightarrow> nat \<Rightarrow> nat \<Rightarrow> nat list" where
  "py_range i stop step = (if 0 < step \<and> i < stop then i # py_range (i + step) stop step else [])"
  by pat_completeness auto
termination
  by (relation "measure (\<lambda>(i, stop, step). stop - i)") auto

definition process_pixel :: "calibrator \<Rightarrow> depth_image \<Rightarrow> real \<Rightarrow> nat \<Rightarrow> nat \<Rightarrow> error + vec option" where
  \<comment> \<open>the body of the inner loop; \<open>None\<close> is \<^verbatim>\<open>continue\<close>\<close>
  "process_pixel c img max_distance_cm v u =
     (let depth_value = img_data img v u in
      if depth_value = 0 then Inr None
      else
        (case depth_scale c of
           None \<Rightarrow> Inl TypeError
         | Some scale \<Rightarrow>
             let depth_m = real depth_value * scale;
                 depth_cm = depth_m * 100
             in if depth_cm > max_distance_cm then Inr None
                else
                  (case pixel_to_camera_coordinates c (real u) (real v) depth_m of
                     Inl e \<Rightarrow> Inl e
                   | Inr point_camera \<Rightarrow>
                       (case camera_to_world_coordinates c point_camera True of
                          Inl e \<Rightarrow> Inl e
                        | Inr point_world \<Rightarrow> Inr (Some point_world)))))"

fun scan_row ::
  "calibrator \<Rightarrow> depth_image \<Rightarrow> real \<Rightarrow> nat \<Rightarrow> nat list \<Rightarrow> vec list \<Rightarrow> error + vec list" where
  "scan_row c img max_distance_cm v [] points_world = Inr points_world"
| "scan_row c img max_distance_cm v (u # us) points_world =
     (case process_pixel c img max_distance_cm v u of
        Inl e \<Rightarrow> Inl e
      | Inr None \<Rightarrow> scan_row c img max_distance_cm v us points_world
      | Inr (Some p) \<Rightarrow> scan_row c img max_distance_cm v us (points_world @ [p]))"

fun scan_rows ::
  "calibrator \<Rightarrow> depth_image \<Rightarrow> real \<Rightarrow> nat list \<Rightarrow> nat list \<Rightarrow> vec list \<Rightarrow> error + vec list" where
  "scan_rows c img max_distance_cm [] us points_world = Inr points_world"
| "scan_rows c img max_distance_cm (v # vs) us points_world =
     (case scan_row c img max_distance_cm v us points_world of
        Inl e \<Rightarrow> Inl e
      | Inr points_world' \<Rightarrow> scan_rows c img max_distance_cm vs us points_world')"

definition depth_image_to_world_points ::
  "calibrator \<Rightarrow> depth_image \<Rightarrow> int \<Rightarrow> real \<Rightarrow> error + vec list" where
  \<comment> \<open>\<^verbatim>\<open>range(0, n, 0)\<close> raises ValueError; a negative step from 0 gives the empty range\<close>
  "depth_image_to_world_points c img subsample max_distance_cm =
     (if subsample = 0 then Inl ValueError
      else if subsample < 0 then Inr []
      else scan_rows c img max_distance_cm
             (py_range 0 (img_height img) (nat subsample))
             (py_range 0 (img_width img) (nat subsample)) [])"

text \<open>The pixel positions (row, column) in the order in which the two loops reach them.\<close>

definition scan_positions :: "nat \<Rightarrow> nat \<Rightarrow> nat \<Rightarrow> (nat \<times> nat) list" where
  "scan_positions h w step =
     concat (map (\<lambda>v. map (\<lambda>u. (v, u)) (py_range 0 w step)) (py_range 0 h step))"

section \<open>The validation history\<close>

definition add_calibration_point ::
  "calibrator \<Rightarrow> int \<times> int \<Rightarrow> real \<Rightarrow> real \<times> real \<times> real \<Rightarrow> string \<Rightarrow> error + (real \<times> calibrator)" where
  "add_calibration_point c pixel depth world_coords lbl =
     (case pixel of (u, v) \<Rightarrow>
      case world_coords of (x, y, z) \<Rightarrow>
      (case pixel_to_camera_coordinates c (real_of_int u) (real_of_int v) depth of
         Inl e \<Rightarrow> Inl e
       | Inr point_camera \<Rightarrow>
           (case camera_to_world_coordinates c point_camera True of
              Inl e \<Rightarrow> Inl e
            | Inr point_world_predicted \<Rightarrow>
                (case np_sub point_world_predicted [x, y, z] of
                   Inl e \<Rightarrow> Inl e
                 | Inr diff \<Rightarrow>
                     let err = np_linalg_norm diff;
                         pt = \<lparr>label = lbl, pixel_coords = PyTuple [u, v], depth_meters = depth,
                               world_coords_true = PyTuple [x, y, z],
                               world_coords_predicted = point_world_predicted,
                               error_cm = err\<rparr>
                     in Inr (err, c\<lparr>calibration_points := calibration_points c @ [pt]\<rparr>)))))"

section \<open>Persistence\<close>

text \<open>
  The dictionary that \<^verbatim>\<open>save_calibration\<close> builds and \<^verbatim>\<open>load_calibration\<close>
  reads, one field per key (the keys that are also attribute names carry the prefix
  \<open>saved\<close>). The intrinsics entry is a dictionary of the six fields of the snapshot.
\<close>

record calibration_data =
  timestamp :: string
  saved_camera_height_cm :: "real option"
  saved_camera_position_world :: vec
  saved_rotation_matrix :: mat
  saved_translation_vector :: mat
  transformation_matrix :: mat
  saved_calibration_error_cm :: "real option"
  saved_calibration_points :: "calibration_point list"
  saved_camera_intrinsics :: "rs_intrinsics option"
  saved_depth_scale :: "real option"

definition save_calibration :: "calibrator \<Rightarrow> string \<Rightarrow> error + calibration_data" where
  \<comment> \<open>\<open>now\<close> is \<^verbatim>\<open>datetime.now().isoformat()\<close>; \<^verbatim>\<open>tolist\<close> on \<^verbatim>\<open>None\<close> raises AttributeError\<close>
  "save_calibration c now =
     (case camera_position_world c of None \<Rightarrow> Inl AttributeError | Some position \<Rightarrow>
      case rotation_matrix c of None \<Rightarrow> Inl AttributeError | Some rotation \<Rightarrow>
      case translation_vector c of None \<Rightarrow> Inl AttributeError | Some translation \<Rightarrow>
      case T_world_camera c of None \<Rightarrow> Inl AttributeError | Some T \<Rightarrow>
        Inr \<lparr>timestamp = now,
             saved_camera_height_cm = camera_height_cm c,
             saved_camera_position_world = position,
             saved_rotation_matrix = rotation,
             saved_translation_vector = translation,
             transformation_matrix = T,
             saved_calibration_error_cm = calibration_error_cm c,
             saved_calibration_points = calibration_points c,
             saved_camera_intrinsics = camera_intrinsics c,
             saved_depth_scale = depth_scale c\<rparr>)"

text \<open>
  What \<^verbatim>\<open>json.load\<close> reads back from the file that \<^verbatim>\<open>json.dump\<close> wrote: a tuple
  comes back as a list; numbers and strings come back as they were (Python writes a float
  with the digits that read back to the same float).
\<close>

definition json_point :: "calibration_point \<Rightarrow> calibration_point" where
  "json_point p =
     p\<lparr>pixel_coords := PyList (items (pixel_coords p)),
       world_coords_true := PyList (items (world_coords_true p))\<rparr>"

definition json_dump_load :: "calibration_data \<Rightarrow> calibration_data" where
  "json_dump_load d = d\<lparr>saved_calibration_points := map json_point (saved_calibration_points d)\<rparr>"

definition load_calibration :: "calibration_data \<Rightarrow> calibrator \<Rightarrow> calibrator \<times> error option" where
  \<comment> \<open>the attributes are assigned first; the last \<^verbatim>\<open>print\<close> formats the stored error with
      \<^verbatim>\<open>:.2f\<close>, which raises TypeError on \<^verbatim>\<open>None\<close>. The result is the calibrator
      as the call leaves it and the exception raised, if any.\<close>
  "load_calibration d c =
     (c\<lparr>camera_height_cm := saved_camera_height_cm d,
        camera_position_world := Some (saved_camera_position_world d),
        rotation_matrix := Some (saved_rotation_matrix d),
        translation_vector := Some (saved_translation_vector d),
        T_world_camera := Some (transformation_matrix d),
        calibration_error_cm := saved_calibration_error_cm d,
        calibration_points := saved_calibration_points d,
        depth_scale := saved_depth_scale d\<rparr>,
      if saved_calibration_error_cm d = None then Some TypeError else None)"

section \<open>The second implementation: CoordinateTransformer\<close>

record transformer =
  camera_height :: real
  pitch_deg :: real
  roll_deg :: real
  yaw_deg :: real
  intrinsics :: "rs_intrinsics option"
  R_cam_to_world :: mat

definition R_flip :: mat where
  "R_flip = [[1, 0, 0], [0, -1, 0], [0, 0, -1]]"

definition build_rotation_matrix :: "transformer \<Rightarrow> transformer" where
  "build_rotation_matrix t =
     (let pitch = np_radians (pitch_deg t);
          roll = np_radians (roll_deg t);
          yaw = np_radians (yaw_deg t);
          R = matmul (matmul (Rz roll) (Ry yaw)) (Rx pitch)
      in t\<lparr>R_cam_to_world := matmul R R_flip\<rparr>)"

definition CoordinateTransformer_init :: "real \<Rightarrow> real \<Rightarrow> real \<Rightarrow> real \<Rightarrow> transformer" where
  "CoordinateTransformer_init camera_height_m pitch roll yaw =
     build_rotation_matrix
       \<lparr>camera_height = camera_height_m, pitch_deg = pitch, roll_deg = roll, yaw_deg = yaw,
        intrinsics = None, R_cam_to_world = []\<rparr>"

definition camera_to_world_coords :: "transformer \<Rightarrow> vec \<Rightarrow> error + vec" where
  "camera_to_world_coords t camera_coords =
     (case matvec (R_cam_to_world t) camera_coords of
        Inl e \<Rightarrow> Inl e
      | Inr world_coords \<Rightarrow>
          if 2 < length world_coords
          then Inr (world_coords[2 := world_coords ! 2 + camera_height t])
          else Inl IndexError)"

section \<open>Concrete calibrators used to exercise the theorems\<close>

definition sample_point :: "real \<Rightarrow> calibration_point" where
  "sample_point e =
     \<lparr>label = ''p'', pixel_coords = PyTuple [0, 0], depth_meters = 1,
      world_coords_true = PyTuple [0, 0, 0], world_coords_predicted = [0, 0, 0],
      error_cm = e\<rparr>"

definition three_point_history :: calibrator where
  "three_point_history =
     WorldFrameCalibrator_init
       \<lparr>calibration_points := [sample_point 1, sample_point 2, sample_point 3]\<rparr>"

definition sample_intrinsics :: rs_intrinsics where
  "sample_intrinsics = \<lparr>width = 10, height = 10, fx = 2, fy = 2, ppx = 4, ppy = 4\<rparr>"

definition overhead_220 :: calibrator where
  \<comment> \<open>the pose of \<^verbatim>\<open>test_calibration_simple.py\<close>: 220 cm above the origin, looking straight down\<close>
  "overhead_220 =
     define_simple_overhead_calibration
       (setup_camera sample_intrinsics (1 / 1000) WorldFrameCalibrator_init) 220 0 0 0 0 0"

definition surveyed_220 :: calibrator where
  \<comment> \<open>\<open>overhead_220\<close> after one calibration point has been added and validated\<close>
  "surveyed_220 =
     overhead_220
       \<lparr>calibration_error_cm := Some 5,
        calibration_points :=
          [\<lparr>label = ''corner'', pixel_coords = PyTuple [4, 4], depth_meters = 22 / 10,
            world_coords_true = PyTuple [3, 4, 0], world_coords_predicted = [0, 0, 0],
            error_cm = 5\<rparr>]\<rparr>"

definition flat_image :: depth_image where
  \<comment> \<open>10 x 10 readings of 1000 units\<close>
  "flat_image = \<lparr>img_height = 10, img_width = 10, img_data = (\<lambda>v u. 1000)\<rparr>"

definition strip_image :: depth_image where
  \<comment> \<open>one row: no reading, a reading at the maximum distance, a reading beyond it\<close>
  "strip_image =
     \<lparr>img_height = 1, img_width = 3,
      img_data = (\<lambda>v u. if u = 0 then 0 else if u = 1 then 3000 else 3001)\<rparr>"

section \<open>Notions of the specification used to state the theorems\<close>

text \<open>
  The product \<open>Rz g \<cdot> Ry b \<cdot> Rx a \<cdot> diag (1, -1, -1)\<close> written out entry by entry.
\<close>

definition pose_rotation :: "real \<Rightarrow> real \<Rightarrow> real \<Rightarrow> mat" where
  "pose_rotation a b g =
     [[cos g * cos b, - (cos g * sin b * sin a - sin g * cos a), - (cos g * sin b * cos a + sin g * sin a)],
      [sin g * cos b, - (sin g * sin b * sin a + cos g * cos a), - (sin g * sin b * cos a - cos g * sin a)],
      [- sin b, - (cos b * sin a), - (cos b * cos a)]]"

text \<open>The Euclidean distance of two points given by their coordinates.\<close>

definition l2_distance :: "vec \<Rightarrow> vec \<Rightarrow> real" where
  "l2_distance p q = sqrt (\<Sum>(a, b)\<leftarrow>zip p q. (a - b)\<^sup>2)"

text \<open>
  The invariant of the validation history: the error of every point is non-negative and is
  the distance between the predicted and the true world coordinates.
\<close>

definition point_ok :: "calibration_point \<Rightarrow> bool" where
  "point_ok p =
     (0 \<le> error_cm p
      \<and> error_cm p = l2_distance (world_coords_predicted p) (items (world_coords_true p)))"

definition history_ok :: "calibration_point list \<Rightarrow> bool" where
  "history_ok pts = list_all point_ok pts"

text \<open>A calibration has been defined: the transform is a 4x4 array.\<close>

definition is_4x4 :: "mat \<Rightarrow> bool" where
  "is_4x4 T = (length T = 4 \<and> list_all (\<lambda>row. length row = 4) T)"

definition transform_ok :: "calibrator \<Rightarrow> bool" where
  "transform_ok c = (case T_world_camera c of None \<Rightarrow> False | Some T \<Rightarrow> is_4x4 T)"

text \<open>Row-major order of pixel positions (row, column).\<close>

definition row_major :: "nat \<times> nat \<Rightarrow> nat \<times> nat \<Rightarrow> bool" where
  "row_major p q = (fst p < fst q \<or> (fst p = fst q \<and> snd p < snd q))"

text \<open>
  A pixel passes the two filters of the batch conversion: its reading is not zero and its
  depth in centimetres is at most the maximum distance.
\<close>

definition pixel_kept :: "real \<Rightarrow> depth_image \<Rightarrow> real \<Rightarrow> nat \<times> nat \<Rightarrow> bool" where
  "pixel_kept scale img max_distance_cm p =
     (img_data img (fst p) (snd p) \<noteq> 0
      \<and> real (img_data img (fst p) (snd p)) * scale * 100 \<le> max_distance_cm)"

text \<open>The world point (in centimetres) that the loop body computes for a pixel that passes.\<close>

definition pixel_world :: "calibrator \<Rightarrow> rs_intrinsics \<Rightarrow> real \<Rightarrow> depth_image \<Rightarrow> nat \<times> nat \<Rightarrow> vec" where
  "pixel_world c intr scale img p =
     projr (camera_to_world_coordinates c
       (rs2_deproject_pixel_to_point intr (real (snd p)) (real (fst p))
          (real (img_data img (fst p) (snd p)) * scale)) True)"

section \<open>Theorems: validation statistics\<close>

lemma np_max_Max: "xs \<noteq> [] \<Longrightarrow> np_max xs = Max (set xs)"
  unfolding np_max_def by (cases xs) (simp_all add: Max.set_eq_fold [symmetric])

lemma np_min_Min: "xs \<noteq> [] \<Longrightarrow> np_min xs = Min (set xs)"
  unfolding np_min_def by (cases xs) (simp_all add: Min.set_eq_fold [symmetric])

lemma sqrt_two_thirds_approx: "\<bar>sqrt (2/3) - 0.8165\<bar> < (0.0001::real)"
proof -
  have "sqrt (2/3) < sqrt ((0.8166)\<^sup>2)"
    by (subst real_sqrt_less_iff) (simp add: power2_eq_square)
  moreover have "sqrt ((0.8164)\<^sup>2) < sqrt (2/3)"
    by (subst real_sqrt_less_iff) (simp add: power2_eq_square)
  ultimately show ?thesis unfolding abs_less_iff by simp
qed

lemma sqrt_fourteen_thirds_approx: "\<bar>sqrt (14/3) - 2.1602\<bar> < (0.0001::real)"
proof -
  have "sqrt (14/3) < sqrt ((2.1603)\<^sup>2)"
    by (subst real_sqrt_less_iff) (simp add: power2_eq_square)
  moreover have "sqrt ((2.1601)\<^sup>2) < sqrt (14/3)"
    by (subst real_sqrt_less_iff) (simp add: power2_eq_square)
  ultimately show ?thesis unfolding abs_less_iff by simp
qed

lemma validate_general:
  assumes "calibration_points c \<noteq> []"
  shows "validate_calibration c =
      Inr (Some \<lparr>num_points = length (calibration_points c),
                 mean_error_cm = (\<Sum>p\<leftarrow>calibration_points c. error_cm p)
                                  / real (length (calibration_points c)),
                 std_error_cm = sqrt ((\<Sum>p\<leftarrow>calibration_points c.
                                   (error_cm p - np_mean (map error_cm (calibration_points c)))\<^sup>2)
                                  / real (length (calibration_points c))),
                 max_error_cm = Max (error_cm ` set (calibration_points c)),
                 min_error_cm = Min (error_cm ` set (calibration_points c)),
                 rmse_cm = sqrt ((\<Sum>p\<leftarrow>calibration_points c. (error_cm p)\<^sup>2)
                                  / real (length (calibration_points c)))\<rparr>,
           c\<lparr>calibration_error_cm := Some (np_mean (map error_cm (calibration_points c)))\<rparr>)"
  using assms
  by (simp add: validate_calibration_def Let_def np_mean_def np_std_def np_max_Max np_min_Min o_def)

lemma validate_123:
  assumes "map error_cm (calibration_points c) = [1, 2, 3]"
  shows "validate_calibration c =
      Inr (Some \<lparr>num_points = 3, mean_error_cm = 2, std_error_cm = sqrt (2/3),
                 max_error_cm = 3, min_error_cm = 1, rmse_cm = sqrt (14/3)\<rparr>,
           c\<lparr>calibration_error_cm := Some 2\<rparr>)"
proof -
  have ne: "calibration_points c \<noteq> []" using assms by auto
  have len: "length (calibration_points c) = 3"
    using assms by (metis length_map length_Cons list.size(3) numeral_3_eq_3)
  show ?thesis
    using assms ne len
    by (simp add: validate_calibration_def Let_def np_mean_def np_std_def np_max_def np_min_def
        power2_eq_square)
qed

text \<open>
  Claim C1. On a history whose points have the errors 1, 2 and 3 (cm),
  \<^verbatim>\<open>validate_calibration\<close> returns num_points = 3, mean 2, population standard deviation
  \<open>sqrt (2/3)\<close> (about 0.8165), minimum 1, maximum 3 and RMSE \<open>sqrt (14/3)\<close> (about
  2.1602). On every non-empty history the metrics are the number of points, the mean, the
  population standard deviation, the maximum, the minimum and the root mean square of the
  errors of all points, and the mean is stored as the calibrator's calibration error.
\<close>

theorem validate_calibration_metrics:
  "(calibration_points c \<noteq> [] \<longrightarrow>
     validate_calibration c =
      Inr (Some \<lparr>num_points = length (calibration_points c),
                 mean_error_cm = (\<Sum>p\<leftarrow>calibration_points c. error_cm p)
                                  / real (length (calibration_points c)),
                 std_error_cm = sqrt ((\<Sum>p\<leftarrow>calibration_points c.
                                   (error_cm p - np_mean (map error_cm (calibration_points c)))\<^sup>2)
                                  / real (length (calibration_points c))),
                 max_error_cm = Max (error_cm ` set (calibration_points c)),
                 min_error_cm = Min (error_cm ` set (calibration_points c)),
                 rmse_cm = sqrt ((\<Sum>p\<leftarrow>calibration_points c. (error_cm p)\<^sup>2)
                                  / real (length (calibration_points c)))\<rparr>,
           c\<lparr>calibration_error_cm := Some (np_mean (map error_cm (calibration_points c)))\<rparr>))
   \<and> (map error_cm (calibration_points c) = [1, 2, 3] \<longrightarrow>
     validate_calibration c =
      Inr (Some \<lparr>num_points = 3, mean_error_cm = 2, std_error_cm = sqrt (2/3),
                 max_error_cm = 3, min_error_cm = 1, rmse_cm = sqrt (14/3)\<rparr>,
           c\<lparr>calibration_error_cm := Some 2\<rparr>))
   \<and> \<bar>sqrt (2/3) - 0.8165\<bar> < (0.0001::real) \<and> \<bar>sqrt (14/3) - 2.1602\<bar> < (0.0001::real)"
  by (intro conjI impI validate_general validate_123 sqrt_two_thirds_approx
      sqrt_fourteen_thirds_approx)

theorem validate_calibration_metrics_witness:
  "map error_cm (calibration_points three_point_history) = [1, 2, 3]
   \<and> validate_calibration three_point_history =
      Inr (Some \<lparr>num_points = 3, mean_error_cm = 2, std_error_cm = sqrt (2/3),
                 max_error_cm = 3, min_error_cm = 1, rmse_cm = sqrt (14/3)\<rparr>,
           three_point_history\<lparr>calibration_error_cm := Some 2\<rparr>)"
proof -
  have h: "map error_cm (calibration_points three_point_history) = [1, 2, 3]"
    by (simp add: three_point_history_def WorldFrameCalibrator_init_def sample_point_def)
  from validate_calibration_metrics [of three_point_history] h show ?thesis by blast
qed

text \<open>
  Claim C2, as the code has it. On an empty history \<^verbatim>\<open>validate_calibration\<close> raises
  nothing: it prints a notice and returns \<^verbatim>\<open>None\<close>, and the calibrator is unchanged.
  The source has no exception for this case.
\<close>

theorem validate_empty_returns_None:
  "calibration_points c = [] \<Longrightarrow> validate_calibration c = Inr (None, c)"
  by (simp add: validate_calibration_def)

theorem validate_empty_returns_None_witness:
  "calibration_points WorldFrameCalibrator_init = []
   \<and> validate_calibration WorldFrameCalibrator_init = Inr (None, WorldFrameCalibrator_init)"
proof -
  have h: "calibration_points WorldFrameCalibrator_init = []"
    by (simp add: WorldFrameCalibrator_init_def)
  from validate_empty_returns_None [OF h] h show ?thesis by simp
qed

text \<open>
  The claim as stated (validation of an empty history fails with an error and never
  returns a null result) is false on a freshly constructed calibrator: the call is not an
  error and its result is \<^verbatim>\<open>None\<close>.
\<close>

theorem validate_empty_no_error_counterexample:
  "\<not> isl (validate_calibration WorldFrameCalibrator_init)
   \<and> fst (projr (validate_calibration WorldFrameCalibrator_init)) = None"
  by (simp add: validate_calibration_def WorldFrameCalibrator_init_def)

section \<open>Theorems: the rigid transform\<close>

lemma upt_3: "[0..<3] = [0, 1, 2]"
  by (simp add: upt_rec)

lemma upt_4: "[0..<4] = [0, 1, 2, 3]"
  by (simp add: upt_rec)

lemma matmul_3x3:
  "matmul [[a11, a12, a13], [a21, a22, a23], [a31, a32, a33]]
          [[b11, b12, b13], [b21, b22, b23], [b31, b32, b33]] =
     [[a11 * b11 + a12 * b21 + a13 * b31, a11 * b12 + a12 * b22 + a13 * b32, a11 * b13 + a12 * b23 + a13 * b33],
      [a21 * b11 + a22 * b21 + a23 * b31, a21 * b12 + a22 * b22 + a23 * b32, a21 * b13 + a22 * b23 + a23 * b33],
      [a31 * b11 + a32 * b21 + a33 * b31, a31 * b12 + a32 * b22 + a33 * b32, a31 * b13 + a32 * b23 + a33 * b33]]"
  by (simp add: matmul_def dot_def column_def upt_3)

lemma assemble_T:
  "assign_col3 (assign_block3 (np_eye 4) [[r11, r12, r13], [r21, r22, r23], [r31, r32, r33]]) [p1, p2, p3] =
     [[r11, r12, r13, p1], [r21, r22, r23, p2], [r31, r32, r33, p3], [0, 0, 0, 1]]"
  by (simp add: assign_col3_def assign_block3_def np_eye_def upt_4)

lemma rotation_product:
  "matmul (matmul (matmul (Rz g) (Ry b)) (Rx a)) R_camera_to_world = pose_rotation a b g"
  by (simp add: Rx_def Ry_def Rz_def R_camera_to_world_def matmul_3x3 pose_rotation_def algebra_simps)

lemma define_fields:
  "define_simple_overhead_calibration c H x y tilt pan roll =
     c\<lparr>camera_height_cm := Some H,
       camera_position_world := Some [x / 100, y / 100, H / 100],
       rotation_matrix := Some (pose_rotation (np_radians tilt) (np_radians pan) (np_radians roll)),
       translation_vector := Some [[x / 100], [y / 100], [H / 100]],
       T_world_camera := Some
         (case pose_rotation (np_radians tilt) (np_radians pan) (np_radians roll) of
            [[r11, r12, r13], [r21, r22, r23], [r31, r32, r33]] \<Rightarrow>
              [[r11, r12, r13, x / 100], [r21, r22, r23, y / 100], [r31, r32, r33, H / 100], [0, 0, 0, 1]])\<rparr>"
  unfolding define_simple_overhead_calibration_def Let_def rotation_product
  by (simp add: pose_rotation_def assemble_T)

lemma define_T:
  "T_world_camera (define_simple_overhead_calibration c H x y tilt pan roll) =
     (let a = np_radians tilt; b = np_radians pan; g = np_radians roll in
      Some [[cos g * cos b, - (cos g * sin b * sin a - sin g * cos a), - (cos g * sin b * cos a + sin g * sin a), x / 100],
            [sin g * cos b, - (sin g * sin b * sin a + cos g * cos a), - (sin g * sin b * cos a - cos g * sin a), y / 100],
            [- sin b, - (cos b * sin a), - (cos b * cos a), H / 100],
            [0, 0, 0, 1]])"
  by (simp add: define_fields pose_rotation_def Let_def)

lemma define_T_zero:
  "T_world_camera (define_simple_overhead_calibration c H x y 0 0 0) =
     Some [[1, 0, 0, x / 100], [0, -1, 0, y / 100], [0, 0, -1, H / 100], [0, 0, 0, 1]]"
  by (simp add: define_T np_radians_def)

lemma to_world_zero_pose:
  "camera_to_world_coordinates (define_simple_overhead_calibration c H x y 0 0 0) [px, py, pz] return_cm =
     Inr (if return_cm then [(px + x / 100) * 100, (y / 100 - py) * 100, (H / 100 - pz) * 100]
          else [px + x / 100, y / 100 - py, H / 100 - pz])"
  by (simp add: camera_to_world_coordinates_def define_T_zero matvec_def dot_def)

text \<open>
  Claim C3. For every pose, \<^verbatim>\<open>define_simple_overhead_calibration\<close> converts the three
  angles from degrees to radians, stores the rotation \<open>Rz roll \<cdot> Ry pan \<cdot> Rx tilt\<close>
  multiplied on the right by the axis flip \<open>diag (1, -1, -1)\<close> (its entries are written
  out), takes as translation the camera position with the height as third (up) component,
  in metres, and assembles the 4x4 matrix whose upper left block is the rotation, whose
  last column is the translation and whose last row is \<open>[0, 0, 0, 1]\<close>.
\<close>

theorem define_simple_overhead_calibration_transform:
  "(let c' = define_simple_overhead_calibration c H x y tilt pan roll;
        a = tilt * pi / 180; b = pan * pi / 180; g = roll * pi / 180;
        R = matmul (matmul (matmul (Rz g) (Ry b)) (Rx a)) [[1, 0, 0], [0, -1, 0], [0, 0, -1]]
    in rotation_matrix c' = Some R
       \<and> R = [[cos g * cos b, - (cos g * sin b * sin a - sin g * cos a), - (cos g * sin b * cos a + sin g * sin a)],
              [sin g * cos b, - (sin g * sin b * sin a + cos g * cos a), - (sin g * sin b * cos a - cos g * sin a)],
              [- sin b, - (cos b * sin a), - (cos b * cos a)]]
       \<and> camera_position_world c' = Some [x / 100, y / 100, H / 100]
       \<and> translation_vector c' = Some [[x / 100], [y / 100], [H / 100]]
       \<and> T_world_camera c' = Some [R ! 0 @ [x / 100], R ! 1 @ [y / 100], R ! 2 @ [H / 100], [0, 0, 0, 1]])"
  unfolding Let_def
  using rotation_product [of "roll * pi / 180" "pan * pi / 180" "tilt * pi / 180"]
  by (simp add: define_fields np_radians_def pose_rotation_def R_camera_to_world_def)

text \<open>
  Claim C4. Height and depth are taken in one unit. In metres: for a pose of height \<open>H\<close>
  metres (the calibrator is given \<open>100 H\<close> centimetres), all angles 0 and position
  (0, 0), the camera-frame point \<open>(0, 0, d)\<close> maps to world \<open>(0, 0, H - d)\<close> metres. In
  centimetres: for a pose of height \<open>H\<close> centimetres the point at depth \<open>d\<close>
  centimetres (\<open>d / 100\<close> metres) maps to \<open>(0, 0, H - d)\<close> when centimetres are
  requested. In both units the ground-plane point, at depth \<open>H\<close>, maps to world
  \<open>z = 0\<close>, exactly. In the units of the arguments (height in centimetres, point in
  metres) the result is \<open>H / 100 - d\<close> metres, or \<open>H - 100 d\<close> centimetres.
\<close>

theorem height_translation:
  "camera_to_world_coordinates (define_simple_overhead_calibration c (100 * H) 0 0 0 0 0)
       [0, 0, d] False
     = Inr [0, 0, H - d]
   \<and> camera_to_world_coordinates (define_simple_overhead_calibration c H 0 0 0 0 0)
       [0, 0, d / 100] True
     = Inr [0, 0, H - d]
   \<and> camera_to_world_coordinates (define_simple_overhead_calibration c (100 * H) 0 0 0 0 0)
       [0, 0, H] False
     = Inr [0, 0, 0]
   \<and> camera_to_world_coordinates (define_simple_overhead_calibration c H 0 0 0 0 0)
       [0, 0, H / 100] True
     = Inr [0, 0, 0]
   \<and> camera_to_world_coordinates (define_simple_overhead_calibration c H 0 0 0 0 0) [0, 0, d] False
     = Inr [0, 0, H / 100 - d]
   \<and> camera_to_world_coordinates (define_simple_overhead_calibration c H 0 0 0 0 0) [0, 0, d] True
     = Inr [0, 0, H - 100 * d]"
  by (simp add: to_world_zero_pose algebra_simps)

section \<open>Theorems: the two implementations\<close>

lemma transformer_fields:
  "CoordinateTransformer_init h pitch roll yaw =
     \<lparr>camera_height = h, pitch_deg = pitch, roll_deg = roll, yaw_deg = yaw, intrinsics = None,
      R_cam_to_world = pose_rotation (np_radians pitch) (np_radians yaw) (np_radians roll)\<rparr>"
  using rotation_product [of "np_radians roll" "np_radians yaw" "np_radians pitch"]
  by (simp add: CoordinateTransformer_init_def build_rotation_matrix_def Let_def R_flip_def
      R_camera_to_world_def)

lemma length_3_cases: "length p = 3 \<Longrightarrow> \<exists>x y z. p = [x, y, z]"
  by (cases p; cases "tl p"; cases "tl (tl p)"; cases "tl (tl (tl p))") auto

lemma calibrator_to_world_3:
  "camera_to_world_coordinates (define_simple_overhead_calibration c H 0 0 tilt pan roll) [x, y, z] False =
     (case pose_rotation (np_radians tilt) (np_radians pan) (np_radians roll) of
        [r1, r2, r3] \<Rightarrow> Inr [dot r1 [x, y, z], dot r2 [x, y, z], dot r3 [x, y, z] + H / 100])"
  by (simp add: camera_to_world_coordinates_def define_fields pose_rotation_def matvec_def dot_def)

lemma transformer_to_world_3:
  "camera_to_world_coords (CoordinateTransformer_init h tilt roll pan) [x, y, z] =
     (case pose_rotation (np_radians tilt) (np_radians pan) (np_radians roll) of
        [r1, r2, r3] \<Rightarrow> Inr [dot r1 [x, y, z], dot r2 [x, y, z], dot r3 [x, y, z] + h])"
  by (simp add: camera_to_world_coords_def transformer_fields pose_rotation_def matvec_def dot_def)

lemma calibrator_to_world_bad_length:
  "length p \<noteq> 3 \<Longrightarrow>
   camera_to_world_coordinates (define_simple_overhead_calibration c H 0 0 tilt pan roll) p r = Inl ValueError"
  by (simp add: camera_to_world_coordinates_def define_fields pose_rotation_def matvec_def)

lemma transformer_to_world_bad_length:
  "length p \<noteq> 3 \<Longrightarrow>
   camera_to_world_coords (CoordinateTransformer_init h tilt roll pan) p = Inl ValueError"
  by (simp add: camera_to_world_coords_def transformer_fields pose_rotation_def matvec_def)

lemma both_transforms_equal:
  "camera_to_world_coordinates (define_simple_overhead_calibration c H 0 0 tilt pan roll) p False =
   camera_to_world_coords (CoordinateTransformer_init (H / 100) tilt roll pan) p"
proof (cases "length p = 3")
  case True
  then obtain x y z where "p = [x, y, z]" using length_3_cases by blast
  then show ?thesis by (simp add: calibrator_to_world_3 transformer_to_world_3)
next
  case False
  then show ?thesis
    by (simp add: calibrator_to_world_bad_length transformer_to_world_bad_length)
qed

text \<open>
  Claim C8, as the code has it. Both implementations build the same rotation with the same
  axis flip. For the same point, the same angles and the same camera height (given in
  centimetres to the calibrator and in metres to the transformer), with the calibrator at
  position (0, 0), they return the same world coordinates in metres, or both raise
  ValueError. They differ in the unit of the height only: given the same number \<open>H\<close>
  as height, the transformer's result is the calibrator's with \<open>H - H / 100\<close> added to
  \<open>z\<close>.
\<close>

theorem implementations_agree_same_height:
  "camera_to_world_coordinates (define_simple_overhead_calibration c H 0 0 tilt pan roll) p False =
     camera_to_world_coords (CoordinateTransformer_init (H / 100) tilt roll pan) p
   \<and> camera_to_world_coords (CoordinateTransformer_init H tilt roll pan) [x, y, z] =
     map_sum id (\<lambda>w. w[2 := w ! 2 + (H - H / 100)])
       (camera_to_world_coordinates (define_simple_overhead_calibration c H 0 0 tilt pan roll) [x, y, z] False)"
  by (simp add: both_transforms_equal calibrator_to_world_3 transformer_to_world_3 pose_rotation_def)

text \<open>
  The claim as stated is false: there are no identical inputs on which the two results
  disagree on the sign of the second (Y) or third (Z) coordinate.
\<close>

theorem implementations_sign_disagreement_counterexample:
  "\<not> (\<exists>c H tilt pan roll p w1 w2.
        camera_to_world_coordinates (define_simple_overhead_calibration c H 0 0 tilt pan roll) p False = Inr w1
      \<and> camera_to_world_coords (CoordinateTransformer_init (H / 100) tilt roll pan) p = Inr w2
      \<and> (sgn (w1 ! 1) \<noteq> sgn (w2 ! 1) \<or> sgn (w1 ! 2) \<noteq> sgn (w2 ! 2)))"
  by (auto simp: both_transforms_equal)

section \<open>Theorems: the validation history\<close>

lemma np_linalg_norm_nonneg: "0 \<le> np_linalg_norm xs"
  by (auto simp: np_linalg_norm_def intro!: sum_list_nonneg)

lemma add_point_appends:
  assumes "add_calibration_point c (u, v) depth (x, y, z) lbl = Inr (err, c')"
  shows "\<exists>pt. c' = c\<lparr>calibration_points := calibration_points c @ [pt]\<rparr>
              \<and> error_cm pt = err \<and> 0 \<le> err"
  using assms np_linalg_norm_nonneg
  by (auto simp: add_calibration_point_def Let_def split: sum.splits)

lemma length_4_cases: "length T = 4 \<Longrightarrow> \<exists>a b c d. T = [a, b, c, d]"
  by (cases T; cases "tl T"; cases "tl (tl T)"; cases "tl (tl (tl T))"; cases "tl (tl (tl (tl T)))") auto

lemma to_world_4x4:
  assumes "T_world_camera c = Some T" "is_4x4 T"
  shows "\<exists>a b d. camera_to_world_coordinates c [px, py, pz] True = Inr [a, b, d]"
proof -
  obtain r1 r2 r3 r4 where T: "T = [r1, r2, r3, r4]"
    using assms(2) length_4_cases unfolding is_4x4_def by blast
  then show ?thesis using assms
    by (simp add: camera_to_world_coordinates_def matvec_def is_4x4_def)
qed

lemma norm_sub_3:
  "np_sub [a, b, d] [x, y, z] = Inr [a - x, b - y, d - z]"
  "np_linalg_norm [a - x, b - y, d - z] = l2_distance [a, b, d] [x, y, z]"
  by (simp_all add: np_sub_def np_linalg_norm_def l2_distance_def)

lemma transform_ok_define: "transform_ok (define_simple_overhead_calibration c H x y tilt pan roll)"
  by (simp add: transform_ok_def define_fields pose_rotation_def is_4x4_def)

lemma add_point_success:
  assumes "transform_ok c" "camera_intrinsics c = Some intr"
  shows "\<exists>pt. add_calibration_point c (u, v) depth (x, y, z) lbl =
            Inr (error_cm pt, c\<lparr>calibration_points := calibration_points c @ [pt]\<rparr>)
          \<and> point_ok pt
          \<and> label pt = lbl \<and> pixel_coords pt = PyTuple [u, v] \<and> depth_meters pt = depth
          \<and> world_coords_true pt = PyTuple [x, y, z]
          \<and> camera_to_world_coordinates c
               (rs2_deproject_pixel_to_point intr (real_of_int u) (real_of_int v) depth) True
              = Inr (world_coords_predicted pt)"
proof -
  obtain T where T: "T_world_camera c = Some T" "is_4x4 T"
    using assms(1) by (auto simp: transform_ok_def split: option.splits)
  let ?p = "rs2_deproject_pixel_to_point intr (real_of_int u) (real_of_int v) depth"
  have p: "?p = [(real_of_int u - ppx intr) / fx intr * depth, (real_of_int v - ppy intr) / fy intr * depth, depth]"
    by (simp add: rs2_deproject_pixel_to_point_def)
  obtain a b d where w: "camera_to_world_coordinates c ?p True = Inr [a, b, d]"
    unfolding p using to_world_4x4 [OF T] by blast
  let ?pt = "\<lparr>label = lbl, pixel_coords = PyTuple [u, v], depth_meters = depth,
               world_coords_true = PyTuple [x, y, z], world_coords_predicted = [a, b, d],
               error_cm = l2_distance [a, b, d] [x, y, z]\<rparr>"
  have "add_calibration_point c (u, v) depth (x, y, z) lbl =
          Inr (error_cm ?pt, c\<lparr>calibration_points := calibration_points c @ [?pt]\<rparr>)"
    using assms(2) w by (simp add: add_calibration_point_def pixel_to_camera_coordinates_def norm_sub_3 Let_def)
  moreover have "point_ok ?pt"
    by (simp add: point_ok_def l2_distance_def sum_list_nonneg)
  ultimately show ?thesis using w by (intro exI [of _ ?pt]) simp
qed

lemma add_point_no_intrinsics:
  "camera_intrinsics c = None \<Longrightarrow> add_calibration_point c (u, v) depth (x, y, z) lbl = Inl ValueError"
  by (simp add: add_calibration_point_def pixel_to_camera_coordinates_def)

lemma add_point_transform_ok:
  assumes "transform_ok c"
  shows "(case camera_intrinsics c of
            None \<Rightarrow> add_calibration_point c (u, v) depth (x, y, z) lbl = Inl ValueError
          | Some intr \<Rightarrow>
             (\<exists>pt. add_calibration_point c (u, v) depth (x, y, z) lbl =
                      Inr (error_cm pt, c\<lparr>calibration_points := calibration_points c @ [pt]\<rparr>)
                  \<and> 0 \<le> error_cm pt
                  \<and> error_cm pt = l2_distance (world_coords_predicted pt) [x, y, z]
                  \<and> world_coords_true pt = PyTuple [x, y, z]
                  \<and> camera_to_world_coordinates c
                       (rs2_deproject_pixel_to_point intr (real_of_int u) (real_of_int v) depth) True
                      = Inr (world_coords_predicted pt)
                  \<and> (history_ok (calibration_points c)
                       \<longrightarrow> history_ok (calibration_points c @ [pt]))))"
proof (cases "camera_intrinsics c")
  case None
  then show ?thesis by (simp add: add_point_no_intrinsics)
next
  case (Some intr)
  from add_point_success [OF assms Some, of u v depth x y z lbl]
  obtain pt where pt: "add_calibration_point c (u, v) depth (x, y, z) lbl =
            Inr (error_cm pt, c\<lparr>calibration_points := calibration_points c @ [pt]\<rparr>)"
     "point_ok pt" "world_coords_true pt = PyTuple [x, y, z]"
     "camera_to_world_coordinates c
               (rs2_deproject_pixel_to_point intr (real_of_int u) (real_of_int v) depth) True
              = Inr (world_coords_predicted pt)"
    by blast
  have "history_ok (calibration_points c) \<longrightarrow> history_ok (calibration_points c @ [pt])"
    using pt(2) by (simp add: history_ok_def)
  moreover have "0 \<le> error_cm pt" "error_cm pt = l2_distance (world_coords_predicted pt) [x, y, z]"
    using pt(2,3) by (simp_all add: point_ok_def)
  ultimately show ?thesis
    unfolding Some option.case using pt(1,3,4) by (intro exI [of _ pt]) blast
qed

text \<open>
  Claim C9. Whenever \<^verbatim>\<open>add_calibration_point\<close> returns, it has appended exactly one
  point to the history, left every other attribute and every earlier point as it was, and
  the point's error is non-negative. Once a calibration is defined (the transform is 4x4),
  the call raises ValueError without intrinsics and otherwise appends a point whose
  error is the Euclidean distance between the predicted world coordinates (in centimetres)
  and the true ones, so the invariant of the history is preserved.
\<close>

theorem add_calibration_point_error:
  "(add_calibration_point c (u, v) depth (x, y, z) lbl = Inr (err, c') \<longrightarrow>
      (\<exists>pt. c' = c\<lparr>calibration_points := calibration_points c @ [pt]\<rparr>
            \<and> error_cm pt = err \<and> 0 \<le> err))
   \<and> (transform_ok c \<longrightarrow>
       (case camera_intrinsics c of
            None \<Rightarrow> add_calibration_point c (u, v) depth (x, y, z) lbl = Inl ValueError
          | Some intr \<Rightarrow>
             (\<exists>pt. add_calibration_point c (u, v) depth (x, y, z) lbl =
                      Inr (error_cm pt, c\<lparr>calibration_points := calibration_points c @ [pt]\<rparr>)
                  \<and> 0 \<le> error_cm pt
                  \<and> error_cm pt = l2_distance (world_coords_predicted pt) [x, y, z]
                  \<and> world_coords_true pt = PyTuple [x, y, z]
                  \<and> camera_to_world_coordinates c
                       (rs2_deproject_pixel_to_point intr (real_of_int u) (real_of_int v) depth) True
                      = Inr (world_coords_predicted pt)
                  \<and> (history_ok (calibration_points c)
                       \<longrightarrow> history_ok (calibration_points c @ [pt])))))"
  using add_point_appends [of c u v depth x y z lbl err c']
    add_point_transform_ok [of c u v depth x y z lbl]
  by blast

lemma define_frame:
  "camera_intrinsics (define_simple_overhead_calibration c H x y tilt pan roll) = camera_intrinsics c"
  "depth_scale (define_simple_overhead_calibration c H x y tilt pan roll) = depth_scale c"
  "calibration_points (define_simple_overhead_calibration c H x y tilt pan roll) = calibration_points c"
  "calibration_error_cm (define_simple_overhead_calibration c H x y tilt pan roll) = calibration_error_cm c"
  by (simp_all add: define_simple_overhead_calibration_def Let_def)

lemma overhead_220_fields:
  "transform_ok overhead_220" "camera_intrinsics overhead_220 = Some sample_intrinsics"
  "calibration_points overhead_220 = []" "depth_scale overhead_220 = Some (1 / 1000)"
  by (simp_all add: overhead_220_def transform_ok_define define_frame setup_camera_def
      WorldFrameCalibrator_init_def)

lemma overhead_220_to_world:
  "camera_to_world_coordinates overhead_220 [px, py, pz] True =
     Inr [px * 100, - py * 100, 220 - pz * 100]"
  by (simp add: overhead_220_def to_world_zero_pose algebra_simps)

lemma sqrt_25: "sqrt 25 = 5"
  using real_sqrt_abs [of 5] by simp

lemma overhead_220_add:
  "add_calibration_point overhead_220 (4, 4) (22 / 10) (3, 4, 0) ''corner'' =
     Inr (5, overhead_220\<lparr>calibration_points :=
        [\<lparr>label = ''corner'', pixel_coords = PyTuple [4, 4], depth_meters = 22 / 10,
          world_coords_true = PyTuple [3, 4, 0], world_coords_predicted = [0, 0, 0],
          error_cm = 5\<rparr>]\<rparr>)"
  by (simp add: add_calibration_point_def pixel_to_camera_coordinates_def overhead_220_fields
      rs2_deproject_pixel_to_point_def sample_intrinsics_def overhead_220_to_world
      np_sub_def np_linalg_norm_def sqrt_25 Let_def)

theorem add_calibration_point_error_witness:
  "transform_ok overhead_220
   \<and> (\<exists>pt. add_calibration_point overhead_220 (4, 4) (22 / 10) (3, 4, 0) ''corner'' =
              Inr (error_cm pt, overhead_220\<lparr>calibration_points := calibration_points overhead_220 @ [pt]\<rparr>)
          \<and> error_cm pt = 5 \<and> world_coords_predicted pt = [0, 0, 0]
          \<and> error_cm pt = l2_distance (world_coords_predicted pt) [3, 4, 0]
          \<and> history_ok (calibration_points overhead_220 @ [pt]))"
proof -
  have ok: "transform_ok overhead_220" by (rule overhead_220_fields)
  have h: "history_ok (calibration_points overhead_220)"
    by (simp add: overhead_220_fields history_ok_def)
  have "case camera_intrinsics overhead_220 of
          None \<Rightarrow> add_calibration_point overhead_220 (4, 4) (22 / 10) (3, 4, 0) ''corner'' = Inl ValueError
        | Some intr \<Rightarrow>
           (\<exists>pt. add_calibration_point overhead_220 (4, 4) (22 / 10) (3, 4, 0) ''corner'' =
                    Inr (error_cm pt, overhead_220\<lparr>calibration_points := calibration_points overhead_220 @ [pt]\<rparr>)
                \<and> 0 \<le> error_cm pt
                \<and> error_cm pt = l2_distance (world_coords_predicted pt) [3, 4, 0]
                \<and> world_coords_true pt = PyTuple [3, 4, 0]
                \<and> camera_to_world_coordinates overhead_220
                     (rs2_deproject_pixel_to_point intr (real_of_int 4) (real_of_int 4) (22 / 10)) True
                    = Inr (world_coords_predicted pt)
                \<and> (history_ok (calibration_points overhead_220)
                     \<longrightarrow> history_ok (calibration_points overhead_220 @ [pt])))"
    using add_calibration_point_error [of overhead_220 4 4 "22 / 10" 3 4 0 "''corner''"] ok by blast
  then obtain pt where pt:
    "add_calibration_point overhead_220 (4, 4) (22 / 10) (3, 4, 0) ''corner'' =
       Inr (error_cm pt, overhead_220\<lparr>calibration_points := calibration_points overhead_220 @ [pt]\<rparr>)"
    "error_cm pt = l2_distance (world_coords_predicted pt) [3, 4, 0]"
    "history_ok (calibration_points overhead_220) \<longrightarrow> history_ok (calibration_points overhead_220 @ [pt])"
    unfolding overhead_220_fields(2) option.case by blast
  from pt(1) have "error_cm pt = 5"
    unfolding overhead_220_add by simp
  moreover from pt(1) have "calibration_points (overhead_220\<lparr>calibration_points := calibration_points overhead_220 @ [pt]\<rparr>)
      = calibration_points (overhead_220\<lparr>calibration_points :=
        [\<lparr>label = ''corner'', pixel_coords = PyTuple [4, 4], depth_meters = 22 / 10,
          world_coords_true = PyTuple [3, 4, 0], world_coords_predicted = [0, 0, 0],
          error_cm = 5\<rparr>]\<rparr>)"
    unfolding overhead_220_add by simp
  then have "world_coords_predicted pt = [0, 0, 0]"
    by (simp add: overhead_220_fields)
  ultimately show ?thesis using ok h pt by blast
qed

text \<open>The surveyed calibrator is what adding that point and validating leave.\<close>

lemma surveyed_220_reached:
  "add_calibration_point overhead_220 (4, 4) (22 / 10) (3, 4, 0) ''corner'' = Inr (5, c1)
   \<Longrightarrow> validate_calibration c1 =
         Inr (Some \<lparr>num_points = 1, mean_error_cm = 5, std_error_cm = 0, max_error_cm = 5,
                    min_error_cm = 5, rmse_cm = 5\<rparr>, surveyed_220)"
  unfolding overhead_220_add
  by (auto simp: validate_calibration_def Let_def np_mean_def np_std_def np_max_def np_min_def
      surveyed_220_def)

section \<open>Theorems: persistence\<close>

lemma load_fields:
  "camera_intrinsics (fst (load_calibration d c)) = camera_intrinsics c"
  "camera_height_cm (fst (load_calibration d c)) = saved_camera_height_cm d"
  "camera_position_world (fst (load_calibration d c)) = Some (saved_camera_position_world d)"
  "rotation_matrix (fst (load_calibration d c)) = Some (saved_rotation_matrix d)"
  "translation_vector (fst (load_calibration d c)) = Some (saved_translation_vector d)"
  "T_world_camera (fst (load_calibration d c)) = Some (transformation_matrix d)"
  "calibration_error_cm (fst (load_calibration d c)) = saved_calibration_error_cm d"
  "calibration_points (fst (load_calibration d c)) = saved_calibration_points d"
  "depth_scale (fst (load_calibration d c)) = saved_depth_scale d"
  by (simp_all add: load_calibration_def)

lemma load_raises_without_stored_error:
  "snd (load_calibration d c) = (if saved_calibration_error_cm d = None then Some TypeError else None)"
  by (simp add: load_calibration_def)

lemma save_succeeds:
  assumes "camera_position_world c = Some p" "rotation_matrix c = Some R"
    "translation_vector c = Some t" "T_world_camera c = Some T"
  shows "save_calibration c now =
     Inr \<lparr>timestamp = now, saved_camera_height_cm = camera_height_cm c,
          saved_camera_position_world = p, saved_rotation_matrix = R,
          saved_translation_vector = t, transformation_matrix = T,
          saved_calibration_error_cm = calibration_error_cm c,
          saved_calibration_points = calibration_points c,
          saved_camera_intrinsics = camera_intrinsics c,
          saved_depth_scale = depth_scale c\<rparr>"
  using assms by (simp add: save_calibration_def)

lemma save_Inr_fields:
  assumes "save_calibration c now = Inr d"
  shows "camera_position_world c = Some (saved_camera_position_world d)"
    "rotation_matrix c = Some (saved_rotation_matrix d)"
    "translation_vector c = Some (saved_translation_vector d)"
    "T_world_camera c = Some (transformation_matrix d)"
    "saved_camera_height_cm d = camera_height_cm c"
    "saved_calibration_error_cm d = calibration_error_cm c"
    "saved_calibration_points d = calibration_points c"
    "saved_camera_intrinsics d = camera_intrinsics c"
    "saved_depth_scale d = depth_scale c"
    "timestamp d = now"
  using assms by (auto simp: save_calibration_def split: option.splits)

lemma save_fails_undefined:
  "camera_position_world c = None \<or> rotation_matrix c = None \<or> translation_vector c = None
     \<or> T_world_camera c = None \<Longrightarrow> save_calibration c now = Inl AttributeError"
  by (auto simp: save_calibration_def split: option.splits)

lemma roundtrip_state:
  assumes "save_calibration c now = Inr d"
  shows "fst (load_calibration (json_dump_load d) c0) =
           c\<lparr>camera_intrinsics := camera_intrinsics c0,
             calibration_points := map json_point (calibration_points c)\<rparr>"
  using save_Inr_fields [OF assms]
  by (simp add: load_calibration_def json_dump_load_def)

text \<open>
  Claim C5, as the code has it. Saving succeeds once a calibration is defined. Loading the
  saved file restores the height, the position, the rotation matrix, the translation
  vector, the transform, the stored error and the depth scale as they were, and the
  calibration points in their order, each with its label, depth, predicted coordinates and
  error as they were and with its pixel and true world coordinates as lists of the same
  elements (JSON has no tuples). The intrinsics are not restored: the loading calibrator
  keeps its own.
\<close>

theorem save_load_roundtrip:
  "(save_calibration c now = Inr d \<longrightarrow>
      fst (load_calibration (json_dump_load d) c0) =
        c\<lparr>camera_intrinsics := camera_intrinsics c0,
          calibration_points :=
            map (\<lambda>p. p\<lparr>pixel_coords := PyList (items (pixel_coords p)),
                        world_coords_true := PyList (items (world_coords_true p))\<rparr>)
              (calibration_points c)\<rparr>)
   \<and> (camera_position_world c \<noteq> None \<and> rotation_matrix c \<noteq> None
        \<and> translation_vector c \<noteq> None \<and> T_world_camera c \<noteq> None
      \<longrightarrow> (\<exists>d. save_calibration c now = Inr d))"
proof -
  have "json_point = (\<lambda>p. p\<lparr>pixel_coords := PyList (items (pixel_coords p)),
                        world_coords_true := PyList (items (world_coords_true p))\<rparr>)"
    by (rule ext) (simp add: json_point_def)
  then show ?thesis
    using roundtrip_state [of c now d c0] save_succeeds [of c _ _ _ _ now]
    by auto
qed

lemma define_sets_arrays:
  "\<exists>p R t T. camera_position_world (define_simple_overhead_calibration c H x y tilt pan roll) = Some p
     \<and> rotation_matrix (define_simple_overhead_calibration c H x y tilt pan roll) = Some R
     \<and> translation_vector (define_simple_overhead_calibration c H x y tilt pan roll) = Some t
     \<and> T_world_camera (define_simple_overhead_calibration c H x y tilt pan roll) = Some T"
  by (simp add: define_simple_overhead_calibration_def Let_def)

lemma surveyed_220_arrays:
  "\<exists>p R t T. camera_position_world surveyed_220 = Some p \<and> rotation_matrix surveyed_220 = Some R
     \<and> translation_vector surveyed_220 = Some t \<and> T_world_camera surveyed_220 = Some T"
  using define_sets_arrays [of "setup_camera sample_intrinsics (1 / 1000) WorldFrameCalibrator_init" 220 0 0 0 0 0]
  by (simp add: surveyed_220_def overhead_220_def)

lemma surveyed_220_intrinsics: "camera_intrinsics surveyed_220 = Some sample_intrinsics"
  by (simp add: surveyed_220_def overhead_220_def define_simple_overhead_calibration_def Let_def
      setup_camera_def)

lemma surveyed_220_save: "\<exists>d. save_calibration surveyed_220 now = Inr d"
  using surveyed_220_arrays save_succeeds [of surveyed_220 _ _ _ _ now] by blast

theorem save_load_roundtrip_witness:
  "\<exists>d. save_calibration surveyed_220 ''2026-02-03T10:00:00'' = Inr d
     \<and> fst (load_calibration (json_dump_load d) WorldFrameCalibrator_init) =
         surveyed_220\<lparr>camera_intrinsics := None,
           calibration_points :=
             [\<lparr>label = ''corner'', pixel_coords = PyList [4, 4], depth_meters = 22 / 10,
               world_coords_true = PyList [3, 4, 0], world_coords_predicted = [0, 0, 0],
               error_cm = 5\<rparr>]\<rparr>"
proof -
  obtain d where d: "save_calibration surveyed_220 ''2026-02-03T10:00:00'' = Inr d"
    using surveyed_220_save by blast
  have "fst (load_calibration (json_dump_load d) WorldFrameCalibrator_init) =
        surveyed_220\<lparr>camera_intrinsics := camera_intrinsics WorldFrameCalibrator_init,
          calibration_points :=
            map (\<lambda>p. p\<lparr>pixel_coords := PyList (items (pixel_coords p)),
                        world_coords_true := PyList (items (world_coords_true p))\<rparr>)
              (calibration_points surveyed_220)\<rparr>"
    using save_load_roundtrip [of surveyed_220 "''2026-02-03T10:00:00''" d WorldFrameCalibrator_init] d
    by blast
  also have "\<dots> = surveyed_220\<lparr>camera_intrinsics := None,
           calibration_points :=
             [\<lparr>label = ''corner'', pixel_coords = PyList [4, 4], depth_meters = 22 / 10,
               world_coords_true = PyList [3, 4, 0], world_coords_predicted = [0, 0, 0],
               error_cm = 5\<rparr>]\<rparr>"
    by (simp add: surveyed_220_def WorldFrameCalibrator_init_def)
  finally show ?thesis using d by blast
qed

text \<open>
  The claim as stated (loading what was saved gives back the record field for field, the
  intrinsics snapshot included) fails for the surveyed calibrator loaded into a fresh one:
  the intrinsics are \<^verbatim>\<open>None\<close> after the load.
\<close>

theorem save_load_roundtrip_counterexample:
  "\<not> isl (save_calibration surveyed_220 ''2026-02-03T10:00:00'')
   \<and> camera_intrinsics surveyed_220 = Some sample_intrinsics
   \<and> camera_intrinsics (fst (load_calibration
         (json_dump_load (projr (save_calibration surveyed_220 ''2026-02-03T10:00:00'')))
         WorldFrameCalibrator_init)) = None
   \<and> fst (load_calibration
         (json_dump_load (projr (save_calibration surveyed_220 ''2026-02-03T10:00:00'')))
         WorldFrameCalibrator_init) \<noteq> surveyed_220"
proof -
  obtain d where d: "save_calibration surveyed_220 ''2026-02-03T10:00:00'' = Inr d"
    using surveyed_220_save by blast
  have n: "camera_intrinsics (fst (load_calibration (json_dump_load d) WorldFrameCalibrator_init)) = None"
    by (simp add: load_fields WorldFrameCalibrator_init_def)
  then have "fst (load_calibration (json_dump_load d) WorldFrameCalibrator_init) \<noteq> surveyed_220"
    using surveyed_220_intrinsics by auto
  with n show ?thesis by (simp add: d surveyed_220_intrinsics)
qed

text \<open>
  Claim C10. \<^verbatim>\<open>load_calibration\<close> assigns the height, the position, the rotation matrix,
  the translation vector, the transform, the stored error, the calibration points and the
  depth scale from the file and leaves the calibrator's intrinsics as they were before the
  load, although \<^verbatim>\<open>save_calibration\<close> writes the intrinsics to the file. After loading
  into a freshly constructed calibrator, \<^verbatim>\<open>pixel_to_camera_coordinates\<close> raises
  ValueError for missing intrinsics; after \<^verbatim>\<open>setup_camera\<close> it returns the deprojected
  point.
\<close>

theorem load_calibration_keeps_intrinsics:
  "camera_intrinsics (fst (load_calibration d c)) = camera_intrinsics c
   \<and> camera_height_cm (fst (load_calibration d c)) = saved_camera_height_cm d
   \<and> camera_position_world (fst (load_calibration d c)) = Some (saved_camera_position_world d)
   \<and> rotation_matrix (fst (load_calibration d c)) = Some (saved_rotation_matrix d)
   \<and> translation_vector (fst (load_calibration d c)) = Some (saved_translation_vector d)
   \<and> T_world_camera (fst (load_calibration d c)) = Some (transformation_matrix d)
   \<and> calibration_error_cm (fst (load_calibration d c)) = saved_calibration_error_cm d
   \<and> calibration_points (fst (load_calibration d c)) = saved_calibration_points d
   \<and> depth_scale (fst (load_calibration d c)) = saved_depth_scale d
   \<and> (save_calibration c1 now = Inr d \<longrightarrow>
        saved_camera_intrinsics (json_dump_load d) = camera_intrinsics c1
        \<and> camera_intrinsics (fst (load_calibration (json_dump_load d) c)) = camera_intrinsics c)
   \<and> pixel_to_camera_coordinates (fst (load_calibration d WorldFrameCalibrator_init)) u v depth
        = Inl ValueError
   \<and> pixel_to_camera_coordinates
        (setup_camera intr scale (fst (load_calibration d WorldFrameCalibrator_init))) u v depth
        = Inr (rs2_deproject_pixel_to_point intr u v depth)"
  using save_Inr_fields(8) [of c1 now d]
  by (simp add: load_fields pixel_to_camera_coordinates_def WorldFrameCalibrator_init_def
      setup_camera_def json_dump_load_def)

theorem load_calibration_keeps_intrinsics_witness:
  "\<exists>d. save_calibration surveyed_220 ''2026-02-03T10:00:00'' = Inr d
     \<and> saved_camera_intrinsics (json_dump_load d) = Some sample_intrinsics
     \<and> camera_intrinsics (fst (load_calibration (json_dump_load d) WorldFrameCalibrator_init)) = None
     \<and> pixel_to_camera_coordinates
          (fst (load_calibration (json_dump_load d) WorldFrameCalibrator_init)) 4 4 (22 / 10)
        = Inl ValueError"
proof -
  obtain d where d: "save_calibration surveyed_220 ''2026-02-03T10:00:00'' = Inr d"
    using surveyed_220_save by blast
  from load_calibration_keeps_intrinsics [of "json_dump_load d" WorldFrameCalibrator_init surveyed_220
      "''2026-02-03T10:00:00''" 4 4 "22 / 10"] 
  have "pixel_to_camera_coordinates
          (fst (load_calibration (json_dump_load d) WorldFrameCalibrator_init)) 4 4 (22 / 10)
        = Inl ValueError" by blast
  moreover from load_calibration_keeps_intrinsics [of d WorldFrameCalibrator_init surveyed_220 "''2026-02-03T10:00:00''"] d
  have "saved_camera_intrinsics (json_dump_load d) = camera_intrinsics surveyed_220"
    "camera_intrinsics (fst (load_calibration (json_dump_load d) WorldFrameCalibrator_init))
       = camera_intrinsics WorldFrameCalibrator_init"
    by blast+
  ultimately show ?thesis
    using d by (auto simp: surveyed_220_intrinsics WorldFrameCalibrator_init_def)
qed

section \<open>Theorems: batch conversion\<close>

declare py_range.simps [simp del]

lemma range_count_step:
  assumes "0 < step" "i < stop"
  shows "(stop - i + step - 1) div step = Suc ((stop - (i + step) + step - 1) div step)"
proof (cases "stop - i \<le> step")
  case True
  then have a: "stop - (i + step) = 0" by simp
  have "(stop - i + step - 1) div step = 1"
    using True assms by (intro div_nat_eqI) auto
  then show ?thesis using a assms by simp
next
  case False
  then have "stop - i + step - 1 = (stop - (i + step) + step - 1) + step" by simp
  then show ?thesis using assms by (metis div_add_self2 less_numeral_extra(3) Suc_eq_plus1)
qed

lemma range_count_stop:
  assumes "0 < step" "\<not> i < stop"
  shows "(stop - i + step - 1) div step = (0::nat)"
proof -
  have "stop - i = 0" using assms(2) by arith
  moreover have "step - 1 < step" using assms(1) by arith
  ultimately show ?thesis by (simp add: div_less)
qed

lemma map_upt_Suc_shift:
  "map (\<lambda>k. i + k * s) [0..<Suc n] = i # map (\<lambda>k. i + s + k * s) [0..<n]"
proof -
  have "[0..<Suc n] = 0 # map Suc [0..<n]"
    by (simp only: map_Suc_upt upt_conv_Cons [OF zero_less_Suc])
  then show ?thesis by (simp add: o_def add.assoc del: upt_Suc)
qed

lemma py_range_eq:
  "0 < s \<Longrightarrow> py_range i n s = map (\<lambda>k. i + k * s) [0..<(n - i + s - 1) div s]"
proof (induction i n s rule: py_range.induct)
  case (1 i stop step)
  show ?case
  proof (cases "i < stop")
    case True
    have "py_range i stop step = i # py_range (i + step) stop step"
      using True 1(2) by (subst py_range.simps) simp
    also have "py_range (i + step) stop step =
        map (\<lambda>k. i + step + k * step) [0..<(stop - (i + step) + step - 1) div step]"
      using 1 True by blast
    finally show ?thesis
      unfolding range_count_step [OF 1(2) True] map_upt_Suc_shift .
  next
    case False
    have "py_range i stop step = []" using False by (subst py_range.simps) simp
    then show ?thesis unfolding range_count_stop [OF 1(2) False] by simp
  qed
qed

lemma py_range_0: "0 < s \<Longrightarrow> py_range 0 n s = map (\<lambda>k. k * s) [0..<(n + s - 1) div s]"
  using py_range_eq [of s 0 n] by simp


lemma ceiling_div_nat:
  assumes "0 < s"
  shows "nat \<lceil>real n / real s\<rceil> = (n + s - 1) div s"
proof -
  define q where "q = (n + s - 1) div s"
  have "n + s - 1 < s + q * s"
    unfolding q_def using assms by (rule dividend_less_div_times)
  then have up: "n \<le> q * s" using assms by simp
  have "q * s \<le> n + s - 1"
    unfolding q_def by (rule div_times_less_eq_dividend)
  then have lo: "q * s < n + s" using assms by simp
  have "real n \<le> real q * real s"
    using up by (metis of_nat_le_iff of_nat_mult)
  then have a: "real n / real s \<le> of_int (int q)"
    using assms by (simp add: divide_le_eq)
  have "real q * real s < real n + real s"
    using lo by (metis of_nat_less_iff of_nat_mult of_nat_add)
  then have "(real q - 1) * real s < real n"
    by (simp add: algebra_simps)
  then have b: "of_int (int q) - 1 < real n / real s"
    using assms by (simp add: less_divide_eq)
  have "\<lceil>real n / real s\<rceil> = int q"
    using b a by (rule ceiling_unique)
  then show ?thesis by (simp add: q_def)
qed

lemma py_range_sorted:
  "sorted_wrt (<) (py_range i n s) \<and> (\<forall>x\<in>set (py_range i n s). i \<le> x \<and> x < n)"
proof (induction i n s rule: py_range.induct)
  case (1 i stop step)
  show ?case
  proof (cases "0 < step \<and> i < stop")
    case True
    then have "py_range i stop step = i # py_range (i + step) stop step"
      by (subst py_range.simps) simp
    then show ?thesis using 1 True by fastforce
  next
    case False
    then have "py_range i stop step = []" by (subst py_range.simps) simp
    then show ?thesis by simp
  qed
qed

lemma scan_positions_length:
  "length (scan_positions h w s) = length (py_range 0 w s) * length (py_range 0 h s)"
  by (simp add: scan_positions_def length_concat o_def sum_list_triv)

lemma scan_positions_count:
  assumes "0 < s"
  shows "length (scan_positions h w s) = nat \<lceil>real w / real s\<rceil> * nat \<lceil>real h / real s\<rceil>"
  using assms by (simp add: scan_positions_length py_range_0 ceiling_div_nat)

lemma scan_positions_grid:
  assumes "0 < s"
  shows "scan_positions h w s =
     concat (map (\<lambda>i. map (\<lambda>j. (i * s, j * s)) [0..<nat \<lceil>real w / real s\<rceil>])
               [0..<nat \<lceil>real h / real s\<rceil>])"
  using assms by (simp add: scan_positions_def py_range_0 ceiling_div_nat o_def)

lemma rows_row_major:
  assumes "sorted_wrt (<) vs" "sorted_wrt (<) us"
  shows "sorted_wrt row_major (concat (map (\<lambda>v. map (\<lambda>u. (v, u)) us) vs))"
  using assms(1)
proof (induction vs)
  case Nil
  then show ?case by simp
next
  case (Cons v vs)
  have "sorted_wrt row_major (map (\<lambda>u. (v, u)) us)"
    using assms(2) by (simp add: sorted_wrt_map row_major_def)
  moreover have "\<forall>x\<in>set (map (\<lambda>u. (v, u)) us).
       \<forall>y\<in>set (concat (map (\<lambda>v. map (\<lambda>u. (v, u)) us) vs)). row_major x y"
    using Cons.prems by (auto simp: row_major_def)
  ultimately show ?case using Cons by (simp add: sorted_wrt_append)
qed

lemma scan_positions_row_major: "sorted_wrt row_major (scan_positions h w s)"
  unfolding scan_positions_def using py_range_sorted by (intro rows_row_major) blast+

lemma scan_positions_10_10_2: "length (scan_positions 10 10 2) = 25"
proof -
  have "(0::nat) < 2" by simp
  then have "length (scan_positions 10 10 2) = ((10 + 2 - 1) div 2) * ((10 + 2 - 1) div 2)"
    by (simp add: scan_positions_length py_range_0)
  then show ?thesis by simp
qed

lemma map_filter_append: "List.map_filter f (xs @ ys) = List.map_filter f xs @ List.map_filter f ys"
  by (simp add: List.map_filter_def)

lemma scan_row_collect:
  assumes "\<forall>u\<in>set us. process_pixel c img m v u = Inr (f (v, u))"
  shows "scan_row c img m v us acc = Inr (acc @ List.map_filter f (map (\<lambda>u. (v, u)) us))"
  using assms
proof (induction us arbitrary: acc)
  case Nil
  then show ?case by (simp add: List.map_filter_simps)
next
  case (Cons u us)
  then show ?case
    by (cases "f (v, u)") (simp_all add: List.map_filter_simps)
qed

lemma scan_rows_collect:
  assumes "\<forall>v\<in>set vs. \<forall>u\<in>set us. process_pixel c img m v u = Inr (f (v, u))"
  shows "scan_rows c img m vs us acc =
           Inr (acc @ List.map_filter f (concat (map (\<lambda>v. map (\<lambda>u. (v, u)) us) vs)))"
  using assms
proof (induction vs arbitrary: acc)
  case Nil
  then show ?case by (simp add: List.map_filter_simps)
next
  case (Cons v vs)
  have "scan_row c img m v us acc = Inr (acc @ List.map_filter f (map (\<lambda>u. (v, u)) us))"
    using Cons.prems by (intro scan_row_collect) simp
  then show ?case using Cons by (simp add: map_filter_append)
qed

lemma process_pixel_zero:
  "img_data img v u = 0 \<Longrightarrow> process_pixel c img m v u = Inr None"
  by (simp add: process_pixel_def)

lemma process_pixel_ok:
  assumes "depth_scale c = Some scale" "camera_intrinsics c = Some intr" "transform_ok c"
  shows "process_pixel c img m v u =
           Inr (if pixel_kept scale img m (v, u) then Some (pixel_world c intr scale img (v, u))
                else None)"
proof -
  obtain T where T: "T_world_camera c = Some T" "is_4x4 T"
    using assms(3) by (auto simp: transform_ok_def split: option.splits)
  obtain a b d where "camera_to_world_coordinates c
      [(real u - ppx intr) / fx intr * (real (img_data img v u) * scale),
       (real v - ppy intr) / fy intr * (real (img_data img v u) * scale),
       real (img_data img v u) * scale] True = Inr [a, b, d]"
    using to_world_4x4 [OF T] by blast
  then show ?thesis
    using assms(1,2)
    by (simp add: process_pixel_def pixel_kept_def pixel_world_def Let_def
        pixel_to_camera_coordinates_def rs2_deproject_pixel_to_point_def not_less)
qed

lemma batch_ok:
  assumes "depth_scale c = Some scale" "camera_intrinsics c = Some intr" "transform_ok c"
    "0 < subsample"
  shows "depth_image_to_world_points c img subsample m =
           Inr (map (pixel_world c intr scale img)
                  (filter (pixel_kept scale img m)
                     (scan_positions (img_height img) (img_width img) (nat subsample))))"
proof -
  let ?f = "\<lambda>p. if pixel_kept scale img m p then Some (pixel_world c intr scale img p) else None"
  have "scan_rows c img m (py_range 0 (img_height img) (nat subsample))
          (py_range 0 (img_width img) (nat subsample)) [] =
        Inr ([] @ List.map_filter ?f (scan_positions (img_height img) (img_width img) (nat subsample)))"
    unfolding scan_positions_def
    by (intro scan_rows_collect) (simp add: process_pixel_ok [OF assms(1-3)])
  then show ?thesis
    using assms(4) by (simp add: depth_image_to_world_points_def map_filter_map_filter)
qed

lemma pixel_world_zero_pose:
  "pixel_world (define_simple_overhead_calibration c H 0 0 0 0 0) intr scale img (v, u) =
     [(real u - ppx intr) / fx intr * (real (img_data img v u) * scale) * 100,
      - ((real v - ppy intr) / fy intr * (real (img_data img v u) * scale)) * 100,
      H - real (img_data img v u) * scale * 100]"
  by (simp add: pixel_world_def rs2_deproject_pixel_to_point_def to_world_zero_pose algebra_simps)

text \<open>
  The depth that the filter compares is the third coordinate of the camera-frame point, in
  centimetres: the distance along the optical axis, as the depth reading gives it.
\<close>

lemma deprojected_depth: "rs2_deproject_pixel_to_point intr u v depth ! 2 = depth"
  by (simp add: rs2_deproject_pixel_to_point_def)

text \<open>
  Claim C6, as the code has it. In \<^verbatim>\<open>depth_image_to_world_points\<close> a pixel whose
  reading is zero is skipped (whatever the calibrator), and a pixel whose depth in
  centimetres (reading times depth scale times 100, which is 100 times the third
  coordinate of its camera-frame point) exceeds \<^verbatim>\<open>max_distance_cm\<close> is left out; a
  pixel whose depth equals the maximum is kept. With depth scale, intrinsics and
  calibration set and a positive subsample factor the call returns the world points of
  exactly the scanned pixels with a non-zero reading and a depth of at most the maximum.
  The distance of the point from the camera is not tested.
\<close>

theorem depth_image_to_world_points_filter:
  "(img_data img v u = 0 \<longrightarrow> process_pixel c' img max_distance_cm v u = Inr None)
   \<and> (depth_scale c = Some scale \<and> camera_intrinsics c = Some intr \<and> transform_ok c \<longrightarrow>
        process_pixel c img max_distance_cm v u =
          Inr (if img_data img v u = 0 then None
               else if max_distance_cm < real (img_data img v u) * scale * 100 then None
               else Some (pixel_world c intr scale img (v, u)))
        \<and> (0 < subsample \<longrightarrow>
             depth_image_to_world_points c img subsample max_distance_cm =
               Inr (map (pixel_world c intr scale img)
                      (filter (\<lambda>p. img_data img (fst p) (snd p) \<noteq> 0
                                  \<and> real (img_data img (fst p) (snd p)) * scale * 100 \<le> max_distance_cm)
                         (scan_positions (img_height img) (img_width img) (nat subsample))))))
   \<and> rs2_deproject_pixel_to_point intr (real u) (real v) (real (img_data img v u) * scale) ! 2 * 100
       = real (img_data img v u) * scale * 100"
proof -
  have e: "pixel_kept scale img max_distance_cm =
        (\<lambda>p. img_data img (fst p) (snd p) \<noteq> 0
              \<and> real (img_data img (fst p) (snd p)) * scale * 100 \<le> max_distance_cm)"
    by (rule ext) (simp add: pixel_kept_def)
  show ?thesis
    using process_pixel_zero [of img v u c' max_distance_cm]
      process_pixel_ok [of c scale intr img max_distance_cm v u]
      batch_ok [of c scale intr subsample img max_distance_cm]
      deprojected_depth [of intr "real u" "real v" "real (img_data img v u) * scale"]
    unfolding e by (auto simp: not_less)
qed

text \<open>
  Claim C7. For a positive subsample factor \<open>s\<close> the two loops reach the positions
  \<open>(i s, j s)\<close> for \<open>i < ceil (h / s)\<close> and \<open>j < ceil (w / s)\<close>, row by row: these are
  \<open>ceil (w / s) ceil (h / s)\<close> positions in row-major order, 25 for a 10 x 10 image with
  subsample 2. For an overhead pose of height \<open>H\<close> (cm) with all angles 0 at position
  (0, 0) the call returns, in scan order, one point per pixel that passes the filters,
  and its world \<open>z\<close> is \<open>H\<close> minus the pixel's depth in centimetres.
\<close>

theorem depth_image_to_world_points_scan:
  "(0 < s \<longrightarrow>
      length (scan_positions h w s) = nat \<lceil>real w / real s\<rceil> * nat \<lceil>real h / real s\<rceil>
      \<and> scan_positions h w s =
          concat (map (\<lambda>i. map (\<lambda>j. (i * s, j * s)) [0..<nat \<lceil>real w / real s\<rceil>])
                    [0..<nat \<lceil>real h / real s\<rceil>]))
   \<and> sorted_wrt row_major (scan_positions h w s)
   \<and> length (scan_positions 10 10 2) = 25
   \<and> (0 < subsample \<and> depth_scale c = Some scale \<and> camera_intrinsics c = Some intr \<longrightarrow>
        depth_image_to_world_points (define_simple_overhead_calibration c H 0 0 0 0 0) img
            subsample max_distance_cm =
          Inr (map (\<lambda>p. [(real (snd p) - ppx intr) / fx intr
                            * (real (img_data img (fst p) (snd p)) * scale) * 100,
                          - ((real (fst p) - ppy intr) / fy intr
                            * (real (img_data img (fst p) (snd p)) * scale)) * 100,
                          H - real (img_data img (fst p) (snd p)) * scale * 100])
                 (filter (pixel_kept scale img max_distance_cm)
                    (scan_positions (img_height img) (img_width img) (nat subsample)))))"
proof -
  have e: "pixel_world (define_simple_overhead_calibration c H 0 0 0 0 0) intr scale img =
        (\<lambda>p. [(real (snd p) - ppx intr) / fx intr
                            * (real (img_data img (fst p) (snd p)) * scale) * 100,
                          - ((real (fst p) - ppy intr) / fy intr
                            * (real (img_data img (fst p) (snd p)) * scale)) * 100,
                          H - real (img_data img (fst p) (snd p)) * scale * 100])"
    by (rule ext) (simp add: pixel_world_zero_pose [of _ _ _ _ _ "fst p" "snd p" for p, simplified])
  have b: "0 < subsample \<and> depth_scale c = Some scale \<and> camera_intrinsics c = Some intr \<longrightarrow>
      depth_image_to_world_points (define_simple_overhead_calibration c H 0 0 0 0 0) img
            subsample max_distance_cm =
        Inr (map (pixel_world (define_simple_overhead_calibration c H 0 0 0 0 0) intr scale img)
               (filter (pixel_kept scale img max_distance_cm)
                  (scan_positions (img_height img) (img_width img) (nat subsample))))"
    by (intro impI batch_ok) (simp_all add: define_frame transform_ok_define)
  show ?thesis
    using scan_positions_count [of s h w] scan_positions_grid [of s h w]
      scan_positions_row_major [of h w s] scan_positions_10_10_2 b
    unfolding e by blast
qed

lemma strip_positions: "scan_positions 1 3 1 = [(0, 0), (0, 1), (0, 2)]"
proof -
  have "(0::nat) < 1" by simp
  then have "scan_positions 1 3 1 =
      concat (map (\<lambda>v. map (\<lambda>u. (v, u)) (map (\<lambda>k. k * 1) [0..<(3 + 1 - 1) div 1]))
        (map (\<lambda>k. k * 1) [0..<(1 + 1 - 1) div 1]))"
    unfolding scan_positions_def by (simp only: py_range_0)
  also have "\<dots> = [(0, 0), (0, 1), (0, 2)]" by (simp add: upt_rec)
  finally show ?thesis .
qed

lemma strip_image_data:
  "img_data strip_image v u = (if u = 0 then 0 else if u = 1 then 3000 else 3001)"
  "img_height strip_image = 1" "img_width strip_image = 3"
  by (simp_all add: strip_image_def)

lemma strip_world:
  "pixel_world overhead_220 sample_intrinsics (1 / 1000) strip_image (0, 1) = [-450, 600, -80]"
  by (simp add: overhead_220_def pixel_world_zero_pose strip_image_def sample_intrinsics_def)

theorem depth_image_to_world_points_filter_witness:
  "depth_scale overhead_220 = Some (1 / 1000)
   \<and> camera_intrinsics overhead_220 = Some sample_intrinsics
   \<and> transform_ok overhead_220
   \<and> process_pixel overhead_220 strip_image 300 0 0 = Inr None
   \<and> process_pixel overhead_220 strip_image 300 0 1 = Inr (Some [-450, 600, -80])
   \<and> process_pixel overhead_220 strip_image 300 0 2 = Inr None
   \<and> depth_image_to_world_points overhead_220 strip_image 1 300 = Inr [[-450, 600, -80]]"
proof -
  note f = overhead_220_fields
  have pre: "depth_scale overhead_220 = Some (1 / 1000) \<and>
     camera_intrinsics overhead_220 = Some sample_intrinsics \<and> transform_ok overhead_220"
    using f by simp
  have pix: "process_pixel overhead_220 strip_image 300 0 u =
          Inr (if img_data strip_image 0 u = 0 then None
               else if 300 < real (img_data strip_image 0 u) * (1 / 1000) * 100 then None
               else Some (pixel_world overhead_220 sample_intrinsics (1 / 1000) strip_image (0, u)))"
    for u
    using depth_image_to_world_points_filter [of strip_image 0 u overhead_220 300 overhead_220 "1 / 1000" sample_intrinsics 1] pre
    by blast
  have a: "process_pixel overhead_220 strip_image 300 0 0 = Inr None"
    unfolding pix by (simp add: strip_image_data)
  have b: "process_pixel overhead_220 strip_image 300 0 1 = Inr (Some [-450, 600, -80])"
    unfolding pix strip_world [symmetric] by (simp add: strip_image_data)
  have c: "process_pixel overhead_220 strip_image 300 0 2 = Inr None"
    unfolding pix by (simp add: strip_image_data)
  have "depth_image_to_world_points overhead_220 strip_image 1 300 =
       Inr (map (pixel_world overhead_220 sample_intrinsics (1 / 1000) strip_image)
              (filter (\<lambda>p. img_data strip_image (fst p) (snd p) \<noteq> 0
                          \<and> real (img_data strip_image (fst p) (snd p)) * (1 / 1000) * 100 \<le> 300)
                 (scan_positions (img_height strip_image) (img_width strip_image) (nat 1))))"
    using depth_image_to_world_points_filter [of strip_image 0 0 overhead_220 300 overhead_220 "1 / 1000" sample_intrinsics 1] pre
    by simp
  also have "\<dots> = Inr [pixel_world overhead_220 sample_intrinsics (1 / 1000) strip_image (0, 1)]"
  proof -
    have n: "nat 1 = 1" by simp
    have "scan_positions (img_height strip_image) (img_width strip_image) (nat 1) =
        [(0, 0), (0, 1), (0, 2)]"
      unfolding strip_image_data n by (rule strip_positions)
    then show ?thesis by (simp add: strip_image_data)
  qed
  finally have "depth_image_to_world_points overhead_220 strip_image 1 300 = Inr [[-450, 600, -80]]"
    unfolding strip_world .
  with a b c f show ?thesis by simp
qed

theorem depth_image_to_world_points_scan_witness:
  "(0::nat) < 2 \<and> (0::int) < 2
   \<and> length (scan_positions 10 10 2) = nat \<lceil>real 10 / real 2\<rceil> * nat \<lceil>real 10 / real 2\<rceil>
   \<and> length (scan_positions 10 10 2) = 25
   \<and> depth_image_to_world_points overhead_220 flat_image 2 300 =
       Inr (map (\<lambda>p. [(real (snd p) - 4) / 2 * 100, - ((real (fst p) - 4) / 2) * 100, 120])
              (scan_positions 10 10 2))"
proof -
  let ?c = "setup_camera sample_intrinsics (1 / 1000) WorldFrameCalibrator_init"
  have k: "filter (pixel_kept (1 / 1000) flat_image 300) xs = xs" for xs
    by (simp add: pixel_kept_def flat_image_def)
  have h1: "(0::nat) < 2" and h2: "(0::int) < 2" by simp_all
  have s: "(0::int) < 2 \<and> depth_scale ?c = Some (1 / 1000) \<and> camera_intrinsics ?c = Some sample_intrinsics"
    by (simp add: setup_camera_def)
  have d: "img_height flat_image = 10" "img_width flat_image = 10" "nat 2 = 2"
    by (simp_all add: flat_image_def)
  have g: "(\<lambda>p. [(real (snd p) - ppx sample_intrinsics) / fx sample_intrinsics
                            * (real (img_data flat_image (fst p) (snd p)) * (1 / 1000)) * 100,
                          - ((real (fst p) - ppy sample_intrinsics) / fy sample_intrinsics
                            * (real (img_data flat_image (fst p) (snd p)) * (1 / 1000))) * 100,
                          220 - real (img_data flat_image (fst p) (snd p)) * (1 / 1000) * 100])
       = (\<lambda>p. [(real (snd p) - 4) / 2 * 100, - ((real (fst p) - 4) / 2) * 100, 120])"
    by (rule ext) (simp add: flat_image_def sample_intrinsics_def)
  note t = depth_image_to_world_points_scan [of 2 10 10 2 ?c "1 / 1000" sample_intrinsics 220 flat_image 300]
  have A: "length (scan_positions 10 10 2) = nat \<lceil>real 10 / real 2\<rceil> * nat \<lceil>real 10 / real 2\<rceil>"
    using t h1 by blast
  have B: "length (scan_positions 10 10 2) = 25"
    using t by blast
  have "depth_image_to_world_points (define_simple_overhead_calibration ?c 220 0 0 0 0 0) flat_image 2 300 =
          Inr (map (\<lambda>p. [(real (snd p) - ppx sample_intrinsics) / fx sample_intrinsics
                            * (real (img_data flat_image (fst p) (snd p)) * (1 / 1000)) * 100,
                          - ((real (fst p) - ppy sample_intrinsics) / fy sample_intrinsics
                            * (real (img_data flat_image (fst p) (snd p)) * (1 / 1000))) * 100,
                          220 - real (img_data flat_image (fst p) (snd p)) * (1 / 1000) * 100])
                 (filter (pixel_kept (1 / 1000) flat_image 300)
                    (scan_positions (img_height flat_image) (img_width flat_image) (nat 2))))"
    using t s by blast
  then have C: "depth_image_to_world_points overhead_220 flat_image 2 300 =
       Inr (map (\<lambda>p. [(real (snd p) - 4) / 2 * 100, - ((real (fst p) - 4) / 2) * 100, 120])
              (scan_positions 10 10 2))"
    unfolding g k d overhead_220_def .
  from h1 h2 A B C show ?thesis by blast
qed

lemma strip_camera_point:
  "pixel_to_camera_coordinates overhead_220 1 0 (3000 * (1 / 1000)) = Inr [- (9 / 2), - 6, 3]"
  by (simp add: pixel_to_camera_coordinates_def overhead_220_fields rs2_deproject_pixel_to_point_def
      sample_intrinsics_def)

lemma strip_point_distance: "300 < 100 * np_linalg_norm [- (9 / 2), - 6, 3]"
proof -
  have "sqrt (3\<^sup>2) < sqrt (261 / 4)"
    by (subst real_sqrt_less_iff) (simp add: power2_eq_square)
  then have "3 < sqrt (261 / 4)" by simp
  moreover have "np_linalg_norm [- (9 / 2), - 6, 3] = sqrt (261 / 4)"
    by (simp add: np_linalg_norm_def power2_eq_square)
  ultimately show ?thesis by simp
qed

text \<open>
  The claim as stated (every point whose distance from the camera, in centimetres, exceeds
  the maximum is excluded) is false. In the one-row image the pixel in column 1 reads
  3000 units, 3 m deep; its camera-frame point \<open>(-4.5, -6, 3)\<close> m is more than 300 cm
  from the camera, and with the maximum distance 300 the point is emitted.
\<close>

theorem depth_image_to_world_points_distance_counterexample:
  "img_data strip_image 0 1 = 3000
   \<and> depth_scale overhead_220 = Some (1 / 1000)
   \<and> pixel_to_camera_coordinates overhead_220 1 0 (3000 * (1 / 1000)) = Inr [- (9 / 2), - 6, 3]
   \<and> 300 < 100 * np_linalg_norm [- (9 / 2), - 6, 3]
   \<and> process_pixel overhead_220 strip_image 300 0 1 = Inr (Some [-450, 600, -80])
   \<and> depth_image_to_world_points overhead_220 strip_image 1 300 = Inr [[-450, 600, -80]]"
proof -
  note f = overhead_220_fields
  have n: "nat 1 = 1" by simp
  have r: "img_data strip_image 0 1 = 3000" by (simp add: strip_image_data)
  have p: "process_pixel overhead_220 strip_image 300 0 1 = Inr (Some [-450, 600, -80])"
    unfolding process_pixel_ok [OF f(4) f(2) f(1)] strip_world [symmetric]
    by (simp add: pixel_kept_def strip_image_data)
  have "depth_image_to_world_points overhead_220 strip_image 1 300 =
      Inr (map (pixel_world overhead_220 sample_intrinsics (1 / 1000) strip_image)
             (filter (pixel_kept (1 / 1000) strip_image 300) [(0, 0), (0, 1), (0, 2)]))"
    using batch_ok [OF f(4) f(2) f(1), of 1 strip_image 300]
    unfolding strip_image_data n strip_positions by simp
  also have "\<dots> = Inr [pixel_world overhead_220 sample_intrinsics (1 / 1000) strip_image (0, 1)]"
    by (simp add: pixel_kept_def strip_image_data)
  finally have d: "depth_image_to_world_points overhead_220 strip_image 1 300 = Inr [[-450, 600, -80]]"
    unfolding strip_world .
  from r f(4) strip_camera_point strip_point_distance p d show ?thesis by blast
qed

end
